theory Spec2Isabelle
  imports Main "HOL-Library.Product_Lexorder" "HOL-Library.Multiset"
begin

section \<open>JavaScript values\<close>

text \<open>
  The agent handles values that come out of \<^verbatim>\<open>JSON.parse\<close>: they are untyped, and the
  code reads properties of them, tests them for truthiness and hands them to the Date
  constructor and to the mongoose schema. A Date object holds a time value (milliseconds
  since the epoch) or is the Invalid Date. JSON numbers are kept as integers.
  An array carries, besides its elements, the named properties assigned to it.
\<close>

datatype jsdate = InvalidDate | TimeValue int

datatype jsval =
    JUndefined
  | JNull
  | JBool bool
  | JNum int
  | JStr string
  | JDate jsdate
  | JArr "jsval list" "(string \<times> jsval) list"
  | JObj "(string \<times> jsval) list"

text \<open>
  An exception is a value: \<open>Error m\<close> is \<^verbatim>\<open>new Error(m)\<close>, the others are the
  exceptions of the language runtime, of mongoose's validation and of the database driver.
\<close>

datatype error = Error string | TypeError | ValidationError string | MongoError

text \<open>ToBoolean, as \<^verbatim>\<open>if (v)\<close> and \<^verbatim>\<open>v || ''\<close> apply it.\<close>

fun truthy :: "jsval \<Rightarrow> bool" where
  "truthy JUndefined = False"
| "truthy JNull = False"
| "truthy (JBool b) = b"
| "truthy (JNum n) = (n \<noteq> 0)"
| "truthy (JStr s) = (s \<noteq> [])"
| "truthy (JDate d) = True"
| "truthy (JArr xs ps) = True"
| "truthy (JObj ps) = True"

text \<open>
  \<^verbatim>\<open>v.k\<close> for the property names the program reads (isTask, title, date, notes, advice):
  reading a property of null or undefined throws a TypeError, a missing property is
  undefined, a primitive has none of these properties.
\<close>

fun get_prop :: "jsval \<Rightarrow> string \<Rightarrow> error + jsval" where
  "get_prop JUndefined k = Inl TypeError"
| "get_prop JNull k = Inl TypeError"
| "get_prop (JObj ps) k = Inr (case map_of ps k of None \<Rightarrow> JUndefined | Some v \<Rightarrow> v)"
| "get_prop (JArr xs ps) k = Inr (case map_of ps k of None \<Rightarrow> JUndefined | Some v \<Rightarrow> v)"
| "get_prop v k = Inr JUndefined"

text \<open>
  \<^verbatim>\<open>v.k = x\<close> in a module (strict mode): it throws a TypeError on null, undefined and on
  a primitive, and defines or overwrites the property on an object or an array (the
  program never looks at the order of the properties). Date objects carry no named
  properties here; \<^verbatim>\<open>JSON.parse\<close> returns none.
\<close>

fun set_prop :: "jsval \<Rightarrow> string \<Rightarrow> jsval \<Rightarrow> error + jsval" where
  "set_prop (JObj ps) k x = Inr (JObj ((k, x) # filter (\<lambda>p. fst p \<noteq> k) ps))"
| "set_prop (JArr xs ps) k x = Inr (JArr xs ((k, x) # filter (\<lambda>p. fst p \<noteq> k) ps))"
| "set_prop v k x = Inl TypeError"

text \<open>
  Strings are ASCII texts, a character being a code unit. \<^verbatim>\<open>String.prototype.trim\<close>
  on the white space of ASCII.
\<close>

definition isWhiteSpace :: "char \<Rightarrow> bool" where
  "isWhiteSpace c =
     (c = CHR 0x09 \<or> c = CHR 0x0A \<or> c = CHR 0x0B \<or> c = CHR 0x0C \<or> c = CHR 0x0D \<or> c = CHR 0x20)"

definition trim :: "string \<Rightarrow> string" where
  "trim s = rev (dropWhile isWhiteSpace (rev (dropWhile isWhiteSpace s)))"

section \<open>Prompts (prompts.js)\<close>

text \<open>
  The four instruction texts. Each constructor stands for the text the function of the
  same name returns; the two templates keep the value they interpolate: the ISO form of
  the current moment (its time value) and the task title.
\<close>

datatype prompt =
    ClassificationPrompt
  | ExtractionPrompt int
  | AdvicePrompt jsval
  | ConversationalPrompt

section \<open>The documents of the store (models/Task.js)\<close>

record task =
  task_id :: nat
  title :: string
  date :: int
  advice :: string
  task_notes :: string
  completed :: bool
  createdAt :: int

section \<open>The collaborators\<close>

text \<open>
  What the program does not decide itself is a field of the environment of one request:
  the completion API (\<open>Inl m\<close>: the request is rejected with message \<open>m\<close>), the
  builtins \<^verbatim>\<open>JSON.parse\<close> (\<open>None\<close>: a SyntaxError) and \<^verbatim>\<open>new Date(v)\<close>, the clock at
  the three places that read it, the local time zone, the runtime's long date of a day
  before the common era, mongoose's casts of a value that is neither nullish nor of the path's type, the
  ObjectId the driver generates, and whether the database answers.
\<close>

record env =
  aiClient :: bool
  completions_create :: "prompt \<Rightarrow> string \<Rightarrow> bool \<Rightarrow> string + string"
  JSON_parse :: "string \<Rightarrow> jsval option"
  Date_of :: "jsval \<Rightarrow> jsdate"
  now_extract :: int
  now_create :: int
  now_format :: int
  LocalTZA :: "int \<Rightarrow> bool \<Rightarrow> int"
  long_date_bce :: "int \<Rightarrow> string"
  mongoose_toString :: "jsval \<Rightarrow> string option"
  mongoose_toDate :: "jsval \<Rightarrow> jsdate"
  ObjectId :: nat
  db_available :: bool

text \<open>
  The zone is the local time zone adjustment of the language standard: \<open>LocalTZA e t True\<close>
  is the offset in milliseconds in force at the instant \<open>t\<close>, and \<open>LocalTZA e t False\<close>
  is the offset by which the local time value \<open>t\<close> is read; a local time that a clock
  change skips or repeats is read with the offset in force before the change.
\<close>

text \<open>
  The state the calls change: the documents of the collection, and the log of the calls
  that left the process (a completion request, a database command), in order.
\<close>

datatype call =
    Completion prompt string bool
  | DbInsert task
  | DbFind
  | DbUpdate nat
  | DbDelete nat

record world =
  docs :: "task list"
  calls :: "call list"

definition logged :: "call \<Rightarrow> world \<Rightarrow> world" where
  "logged c w = w\<lparr>calls := calls w @ [c]\<rparr>"

section \<open>config/ai.js\<close>

definition sendMessage ::
  "env \<Rightarrow> prompt \<Rightarrow> string \<Rightarrow> bool \<Rightarrow> world \<Rightarrow> (error + string) \<times> world" where
  "sendMessage e systemPrompt userMessage jsonMode w =
     (if \<not> aiClient e
      then (Inl (Error ''AI client not initialized. Call initializeAI() first.''), w)
      else
        (case completions_create e systemPrompt userMessage jsonMode of
           Inl m \<Rightarrow>
             (Inl (Error (''AI request failed: '' @ m)),
              logged (Completion systemPrompt userMessage jsonMode) w)
         | Inr content \<Rightarrow>
             (Inr content, logged (Completion systemPrompt userMessage jsonMode) w)))"

section \<open>The schema (models/Task.js) under mongoose\<close>

text \<open>
  A cast leaves a nullish value nullish, fails, or yields a value of the path's type.
  A string casts to itself and a valid Date to its time value; the Invalid Date fails;
  the empty string is no date.
\<close>

datatype 'a casted = CastFailed | Nullish | Casted 'a

fun castString :: "env \<Rightarrow> jsval \<Rightarrow> string casted" where
  "castString e JUndefined = Nullish"
| "castString e JNull = Nullish"
| "castString e (JStr s) = Casted s"
| "castString e v =
     (case mongoose_toString e v of None \<Rightarrow> CastFailed | Some s \<Rightarrow> Casted s)"

fun castDate :: "env \<Rightarrow> jsval \<Rightarrow> int casted" where
  "castDate e JUndefined = Nullish"
| "castDate e JNull = Nullish"
| "castDate e (JStr []) = Nullish"
| "castDate e (JDate InvalidDate) = CastFailed"
| "castDate e (JDate (TimeValue t)) = Casted t"
| "castDate e v =
     (case mongoose_toDate e v of InvalidDate \<Rightarrow> CastFailed | TimeValue t \<Rightarrow> Casted t)"

text \<open>
  title: String, required, trim, maxLength 200. The required validator of a string
  path accepts a string of positive length only; the length is that of an ASCII text.
\<close>

definition title_path :: "env \<Rightarrow> jsval \<Rightarrow> error + string" where
  "title_path e v =
     (case castString e v of
        CastFailed \<Rightarrow> Inl (ValidationError ''title'')
      | Nullish \<Rightarrow> Inl (ValidationError ''title'')
      | Casted s \<Rightarrow>
          (let s' = trim s in
           if s' = [] then Inl (ValidationError ''title'')
           else if 200 < length s' then Inl (ValidationError ''title'')
           else Inr s'))"

text \<open>date: Date, required.\<close>

definition date_path :: "env \<Rightarrow> jsval \<Rightarrow> error + int" where
  "date_path e v =
     (case castDate e v of
        CastFailed \<Rightarrow> Inl (ValidationError ''date'')
      | Nullish \<Rightarrow> Inl (ValidationError ''date'')
      | Casted t \<Rightarrow> Inr t)"

text \<open>advice and notes: String, default the empty string.\<close>

definition text_path :: "string \<Rightarrow> env \<Rightarrow> jsval \<Rightarrow> error + string" where
  "text_path name e v =
     (case castString e v of
        CastFailed \<Rightarrow> Inl (ValidationError name)
      | Nullish \<Rightarrow> Inr []
      | Casted s \<Rightarrow> Inr s)"

text \<open>
  \<^verbatim>\<open>new Task({title, date, notes, advice})\<close> followed by the validation that
  \<^verbatim>\<open>save()\<close> runs before it sends anything: the four paths are cast and validated,
  \<open>completed\<close> and \<open>createdAt\<close> take their defaults, the driver supplies the id.
\<close>

definition Task_new :: "env \<Rightarrow> jsval \<Rightarrow> jsval \<Rightarrow> jsval \<Rightarrow> jsval \<Rightarrow> error + task" where
  "Task_new e titleV dateV notesV adviceV =
     (case title_path e titleV of Inl x \<Rightarrow> Inl x | Inr ti \<Rightarrow>
      case date_path e dateV of Inl x \<Rightarrow> Inl x | Inr d \<Rightarrow>
      case text_path ''advice'' e adviceV of Inl x \<Rightarrow> Inl x | Inr a \<Rightarrow>
      case text_path ''notes'' e notesV of Inl x \<Rightarrow> Inl x | Inr n \<Rightarrow>
        Inr \<lparr>task_id = ObjectId e, title = ti, date = d, advice = a, task_notes = n,
             completed = False, createdAt = now_create e\<rparr>)"

text \<open>
  The insert command: it fails when the database does not answer or the id is taken,
  and appends the document otherwise.
\<close>

definition insertOne :: "env \<Rightarrow> task \<Rightarrow> world \<Rightarrow> (error + task) \<times> world" where
  "insertOne e t w =
     (let w' = logged (DbInsert t) w in
      if \<not> db_available e then (Inl MongoError, w')
      else if task_id t \<in> set (map task_id (docs w)) then (Inl MongoError, w')
      else (Inr t, w'\<lparr>docs := docs w @ [t]\<rparr>))"

section \<open>The agent's tools (tools.js)\<close>

text \<open>
  Tool 1. The reply is parsed, and the \<open>date\<close> property of the result is replaced by
  \<^verbatim>\<open>new Date(taskInfo.date)\<close>; the Date constructor never throws, it yields the Invalid
  Date. Whatever is thrown inside becomes the one extraction error.
\<close>

definition extractTaskInfo :: "env \<Rightarrow> string \<Rightarrow> world \<Rightarrow> (error + jsval) \<times> world" where
  "extractTaskInfo e userMessage w =
     (case sendMessage e (ExtractionPrompt (now_extract e)) userMessage True w of
        (Inl x, w') \<Rightarrow> (Inl (Error ''Failed to extract task information''), w')
      | (Inr response, w') \<Rightarrow>
          (case JSON_parse e response of
             None \<Rightarrow> (Inl (Error ''Failed to extract task information''), w')
           | Some taskInfo \<Rightarrow>
               (case get_prop taskInfo ''date'' of
                  Inl x \<Rightarrow> (Inl (Error ''Failed to extract task information''), w')
                | Inr d \<Rightarrow>
                    (case set_prop taskInfo ''date'' (JDate (Date_of e d)) of
                       Inl x \<Rightarrow> (Inl (Error ''Failed to extract task information''), w')
                     | Inr taskInfo' \<Rightarrow> (Inr taskInfo', w')))))"

text \<open>
  Tool 2. Only the four properties are read; \<open>notes\<close> and \<open>advice\<close> fall back to the
  empty string when falsy.
\<close>

definition orEmpty :: "jsval \<Rightarrow> jsval" where
  "orEmpty v = (if truthy v then v else JStr [])"

definition saveTask :: "env \<Rightarrow> jsval \<Rightarrow> world \<Rightarrow> (error + task) \<times> world" where
  "saveTask e taskInfo w =
     (case get_prop taskInfo ''title'' of
        Inl x \<Rightarrow> (Inl (Error ''Failed to save task to database''), w)
      | Inr titleV \<Rightarrow>
     (case get_prop taskInfo ''date'' of
        Inl x \<Rightarrow> (Inl (Error ''Failed to save task to database''), w)
      | Inr dateV \<Rightarrow>
     (case get_prop taskInfo ''notes'' of
        Inl x \<Rightarrow> (Inl (Error ''Failed to save task to database''), w)
      | Inr notesV \<Rightarrow>
     (case get_prop taskInfo ''advice'' of
        Inl x \<Rightarrow> (Inl (Error ''Failed to save task to database''), w)
      | Inr adviceV \<Rightarrow>
     (case Task_new e titleV dateV (orEmpty notesV) (orEmpty adviceV) of
        Inl x \<Rightarrow> (Inl (Error ''Failed to save task to database''), w)
      | Inr t \<Rightarrow>
     (case insertOne e t w of
        (Inl x, w') \<Rightarrow> (Inl (Error ''Failed to save task to database''), w')
      | (Inr savedTask, w') \<Rightarrow> (Inr savedTask, w')))))))"

text \<open>
  Tool 3. The filters: \<open>completed\<close> is a boolean or absent, \<open>dateFrom\<close> and \<open>dateTo\<close>
  are any value (undefined when absent) and count when truthy. The query is cast before
  it is sent, and an Invalid Date in it fails the cast. The result is sorted by date
  ascending, then by creation time descending; documents equal in both keep the order of
  the collection.
\<close>

record filters =
  f_completed :: "bool option"
  f_dateFrom :: jsval
  f_dateTo :: jsval

record query =
  q_completed :: "bool option"
  q_gte :: "jsdate option"
  q_lte :: "jsdate option"

definition build_query :: "env \<Rightarrow> filters \<Rightarrow> query" where
  "build_query e f =
     \<lparr>q_completed = f_completed f,
      q_gte = (if truthy (f_dateFrom f) then Some (Date_of e (f_dateFrom f)) else None),
      q_lte = (if truthy (f_dateTo f) then Some (Date_of e (f_dateTo f)) else None)\<rparr>"

definition query_castable :: "query \<Rightarrow> bool" where
  "query_castable q = (q_gte q \<noteq> Some InvalidDate \<and> q_lte q \<noteq> Some InvalidDate)"

definition matches :: "query \<Rightarrow> task \<Rightarrow> bool" where
  "matches q t =
     ((case q_completed q of None \<Rightarrow> True | Some b \<Rightarrow> completed t = b) \<and>
      (case q_gte q of Some (TimeValue d1) \<Rightarrow> d1 \<le> date t | _ \<Rightarrow> True) \<and>
      (case q_lte q of Some (TimeValue d2) \<Rightarrow> date t \<le> d2 | _ \<Rightarrow> True))"

definition sort_order :: "task \<Rightarrow> int \<times> int" where
  "sort_order t = (date t, - createdAt t)"

definition getTasks :: "env \<Rightarrow> filters \<Rightarrow> world \<Rightarrow> (error + task list) \<times> world" where
  "getTasks e f w =
     (let q = build_query e f in
      if \<not> query_castable q then (Inl (Error ''Failed to retrieve tasks from database''), w)
      else if \<not> db_available e
      then (Inl (Error ''Failed to retrieve tasks from database''), logged DbFind w)
      else (Inr (sort_key sort_order (filter (matches q) (docs w))), logged DbFind w))"

text \<open>Tool 4. A failed request is replaced by the fixed advice.\<close>

definition fallbackAdvice :: string where
  "fallbackAdvice =
     ''Good luck with your task! Break it down into smaller steps and tackle them one at a time.''"

definition generateAdvice :: "env \<Rightarrow> jsval \<Rightarrow> world \<Rightarrow> string \<times> world" where
  "generateAdvice e taskTitle w =
     (case sendMessage e (AdvicePrompt taskTitle) [] False w of
        (Inl x, w') \<Rightarrow> (fallbackAdvice, w')
      | (Inr text, w') \<Rightarrow> (trim text, w'))"

text \<open>
  Tool 5. The updates are the fields the route lets through; \<open>notes\<close> and \<open>completed\<close>
  are taken at the type of their path. With \<^verbatim>\<open>runValidators\<close> the values of \<open>title\<close> and
  \<open>date\<close> are cast and validated as on insertion, before the command is sent. The
  command yields the updated document, or null when no document has the id; the error
  thrown for null is thrown inside the \<^verbatim>\<open>try\<close> and is caught by its \<^verbatim>\<open>catch\<close>.
\<close>

record updates =
  u_completed :: "bool option"
  u_title :: "jsval option"
  u_date :: "jsval option"
  u_notes :: "string option"

definition cast_update ::
  "env \<Rightarrow> updates \<Rightarrow> error + (string option \<times> int option)" where
  "cast_update e u =
     (case (case u_title u of None \<Rightarrow> Inr None
            | Some v \<Rightarrow> (case title_path e v of Inl x \<Rightarrow> Inl x | Inr s \<Rightarrow> Inr (Some s))) of
        Inl x \<Rightarrow> Inl x
      | Inr ti \<Rightarrow>
          (case (case u_date u of None \<Rightarrow> Inr None
                 | Some v \<Rightarrow> (case date_path e v of Inl x \<Rightarrow> Inl x | Inr d \<Rightarrow> Inr (Some d))) of
             Inl x \<Rightarrow> Inl x
           | Inr d \<Rightarrow> Inr (ti, d)))"

definition apply_update :: "updates \<Rightarrow> string option \<Rightarrow> int option \<Rightarrow> task \<Rightarrow> task" where
  "apply_update u ti d t =
     t\<lparr>title := (case ti of None \<Rightarrow> title t | Some s \<Rightarrow> s),
       date := (case d of None \<Rightarrow> date t | Some x \<Rightarrow> x),
       task_notes := (case u_notes u of None \<Rightarrow> task_notes t | Some n \<Rightarrow> n),
       completed := (case u_completed u of None \<Rightarrow> completed t | Some b \<Rightarrow> b)\<rparr>"

fun update_first :: "nat \<Rightarrow> (task \<Rightarrow> task) \<Rightarrow> task list \<Rightarrow> (task \<times> task list) option" where
  "update_first i f [] = None"
| "update_first i f (t # ts) =
     (if task_id t = i then Some (f t, f t # ts)
      else (case update_first i f ts of
              None \<Rightarrow> None
            | Some (t', ts') \<Rightarrow> Some (t', t # ts')))"

definition findByIdAndUpdate ::
  "env \<Rightarrow> nat \<Rightarrow> updates \<Rightarrow> world \<Rightarrow> (error + task option) \<times> world" where
  "findByIdAndUpdate e taskId u w =
     (case cast_update e u of
        Inl x \<Rightarrow> (Inl x, w)
      | Inr (ti, d) \<Rightarrow>
          (if \<not> db_available e then (Inl MongoError, logged (DbUpdate taskId) w)
           else
             (case update_first taskId (apply_update u ti d) (docs w) of
                None \<Rightarrow> (Inr None, logged (DbUpdate taskId) w)
              | Some (t', ds) \<Rightarrow> (Inr (Some t'), (logged (DbUpdate taskId) w)\<lparr>docs := ds\<rparr>))))"

definition updateTask :: "env \<Rightarrow> nat \<Rightarrow> updates \<Rightarrow> world \<Rightarrow> (error + task) \<times> world" where
  "updateTask e taskId u w =
     (case (case findByIdAndUpdate e taskId u w of
              (Inl x, w') \<Rightarrow> (Inl x, w')
            | (Inr None, w') \<Rightarrow> (Inl (Error ''Task not found''), w')
            | (Inr (Some t), w') \<Rightarrow> (Inr t, w')) of
        (Inl x, w') \<Rightarrow> (Inl (Error ''Failed to update task''), w')
      | (Inr t, w') \<Rightarrow> (Inr t, w'))"

text \<open>Tool 6, with the same \<^verbatim>\<open>try\<close> around the test for null.\<close>

fun delete_first :: "nat \<Rightarrow> task list \<Rightarrow> (task \<times> task list) option" where
  "delete_first i [] = None"
| "delete_first i (t # ts) =
     (if task_id t = i then Some (t, ts)
      else (case delete_first i ts of
              None \<Rightarrow> None
            | Some (t', ts') \<Rightarrow> Some (t', t # ts')))"

definition findByIdAndDelete ::
  "env \<Rightarrow> nat \<Rightarrow> world \<Rightarrow> (error + task option) \<times> world" where
  "findByIdAndDelete e taskId w =
     (if \<not> db_available e then (Inl MongoError, logged (DbDelete taskId) w)
      else
        (case delete_first taskId (docs w) of
           None \<Rightarrow> (Inr None, logged (DbDelete taskId) w)
         | Some (t, ds) \<Rightarrow> (Inr (Some t), (logged (DbDelete taskId) w)\<lparr>docs := ds\<rparr>)))"

definition deleteTask :: "env \<Rightarrow> nat \<Rightarrow> world \<Rightarrow> (error + bool) \<times> world" where
  "deleteTask e taskId w =
     (case (case findByIdAndDelete e taskId w of
              (Inl x, w') \<Rightarrow> (Inl x, w')
            | (Inr None, w') \<Rightarrow> (Inl (Error ''Task not found''), w')
            | (Inr (Some t), w') \<Rightarrow> (Inr True, w')) of
        (Inl x, w') \<Rightarrow> (Inl (Error ''Failed to delete task''), w')
      | (Inr b, w') \<Rightarrow> (Inr b, w'))"

section \<open>Dates as the agent uses them\<close>

text \<open>
  A Date object is a cell holding its time value; the heap lists the cells, and a
  reference is an index into it. \<^verbatim>\<open>new Date(...)\<close> allocates a cell, the setters
  overwrite one. The setters work in local time, as the language standard defines it:
  the time value is turned into a local time value with the offset in force at that
  instant, changed, and turned back with the offset the new local time is read by.
\<close>

type_synonym heap = "int list"

type_synonym zone = "int \<Rightarrow> bool \<Rightarrow> int"

definition msPerDay :: int where
  "msPerDay = 86400000"

definition LocalTime :: "zone \<Rightarrow> int \<Rightarrow> int" where
  "LocalTime z t = t + z t True"

definition UTC :: "zone \<Rightarrow> int \<Rightarrow> int" where
  "UTC z t = t - z t False"

definition Day :: "int \<Rightarrow> int" where
  "Day t = t div msPerDay"

definition TimeWithinDay :: "int \<Rightarrow> int" where
  "TimeWithinDay t = t mod msPerDay"

definition Date_new :: "heap \<Rightarrow> int \<Rightarrow> nat \<times> heap" where
  "Date_new h t = (length h, h @ [t])"

definition getTime :: "heap \<Rightarrow> nat \<Rightarrow> int" where
  "getTime h r = h ! r"

text \<open>
  \<^verbatim>\<open>setHours(0, 0, 0, 0)\<close>: the local day of the time value, at time 0 within the day.
\<close>

definition setHours0 :: "zone \<Rightarrow> heap \<Rightarrow> nat \<Rightarrow> heap" where
  "setHours0 z h r = h[r := UTC z (Day (LocalTime z (h ! r)) * msPerDay)]"

text \<open>
  \<^verbatim>\<open>setDate(getDate() + 1)\<close>: the day of the month plus one, which the standard's
  MakeDay turns into the day number plus one, at the same local time within the day.
\<close>

definition setDate_next :: "zone \<Rightarrow> heap \<Rightarrow> nat \<Rightarrow> heap" where
  "setDate_next z h r =
     (let t = LocalTime z (h ! r)
      in h[r := UTC z ((Day t + 1) * msPerDay + TimeWithinDay t)])"

text \<open>The number of the local calendar day an instant falls on (day 0 is 1970-01-01).\<close>

definition localDay :: "zone \<Rightarrow> int \<Rightarrow> int" where
  "localDay z t = Day (LocalTime z t)"

text \<open>The civil date (year, month, day of the month) of a day number, Gregorian.\<close>

definition civil_from_days :: "int \<Rightarrow> int \<times> int \<times> int" where
  "civil_from_days z0 =
     (let z = z0 + 719468;
          era = z div 146097;
          doe = z - era * 146097;
          yoe = (doe - doe div 1460 + doe div 36524 - doe div 146096) div 365;
          doy = doe - (365 * yoe + yoe div 4 - yoe div 100);
          mp = (5 * doy + 2) div 153;
          d = doy - (153 * mp + 2) div 5 + 1;
          m = (if mp < 10 then mp + 3 else mp - 9)
      in (yoe + era * 400 + (if m \<le> 2 then 1 else 0), m, d))"

definition weekdayNames :: "string list" where
  "weekdayNames =
     [''Sunday'', ''Monday'', ''Tuesday'', ''Wednesday'', ''Thursday'', ''Friday'', ''Saturday'']"

definition monthNames :: "string list" where
  "monthNames =
     [''January'', ''February'', ''March'', ''April'', ''May'', ''June'', ''July'',
      ''August'', ''September'', ''October'', ''November'', ''December'']"

fun digits :: "nat \<Rightarrow> string" where
  "digits n =
     (if n < 10 then [''0123456789'' ! n]
      else digits (n div 10) @ [''0123456789'' ! (n mod 10)])"

declare digits.simps [simp del]

text \<open>
  \<^verbatim>\<open>toLocaleDateString('en-US', {weekday: 'long', year: 'numeric', month: 'long',
  day: 'numeric'})\<close>: weekday, month name, day and year of the local day of the Date,
  as in \<^verbatim>\<open>Sunday, February 1, 2026\<close>. How a day before the common era is written is
  left to the runtime (\<open>bce\<close>).
\<close>

definition toLocaleDateString :: "zone \<Rightarrow> (int \<Rightarrow> string) \<Rightarrow> int \<Rightarrow> string" where
  "toLocaleDateString z bce t =
     (let n = localDay z t;
          (y, m, d) = civil_from_days n
      in if 1 \<le> y
         then weekdayNames ! nat ((n + 4) mod 7) @ '', '' @
              monthNames ! nat (m - 1) @ '' '' @ digits (nat d) @ '', '' @ digits (nat y)
         else bce n)"

text \<open>
  The instant \<^verbatim>\<open>setHours(0, 0, 0, 0)\<close> goes to on local day \<open>d\<close>. The day has a local
  midnight when the local clock reads midnight of \<open>d\<close> at that instant (no clock change
  skips it), and it starts on \<open>d\<close> when that instant is at least on day \<open>d\<close>.
\<close>

definition local_midnight :: "zone \<Rightarrow> int \<Rightarrow> int" where
  "local_midnight z d = UTC z (d * msPerDay)"



section \<open>The agent (Agent.js)\<close>

text \<open>
  The three shapes of a response: \<^verbatim>\<open>{message, task, isTask: true}\<close>,
  \<^verbatim>\<open>{message, isTask: false}\<close> and \<^verbatim>\<open>{message, error: true}\<close>.
\<close>

record task_view =
  v_id :: nat
  v_title :: string
  v_date :: int
  v_notes :: string
  v_advice :: string

datatype response =
    TaskResponse string task_view
  | ChatResponse string
  | ErrorResponse string

definition isTask :: "response \<Rightarrow> bool option" where
  "isTask r =
     (case r of TaskResponse m v \<Rightarrow> Some True | ChatResponse m \<Rightarrow> Some False
      | ErrorResponse m \<Rightarrow> None)"

definition apology :: string where
  "apology =
     ''I apologize, but I encountered an error processing your request. Please try again.''"

definition greeting :: string where
  "greeting =
     ''Hello! I'' @ [CHR 0x27] @ ''m your task assistant. I can help you remember things '' @
     ''and manage your tasks. Try saying something like '' @ [CHR 0x27] @
     ''Remind me to study tomorrow'' @ [CHR 0x27] @ ''!''"

text \<open>The default of a failed classification: \<^verbatim>\<open>{ isTask: false, confidence: 0 }\<close>.\<close>

definition nonTask :: jsval where
  "nonTask = JObj [(''isTask'', JBool False), (''confidence'', JNum 0)]"

definition classify :: "env \<Rightarrow> string \<Rightarrow> world \<Rightarrow> jsval \<times> world" where
  "classify e userMessage w =
     (case sendMessage e ClassificationPrompt userMessage True w of
        (Inl x, w') \<Rightarrow> (nonTask, w')
      | (Inr response, w') \<Rightarrow>
          (case JSON_parse e response of
             None \<Rightarrow> (nonTask, w')
           | Some classification \<Rightarrow> (classification, w')))"

text \<open>
  \<^verbatim>\<open>formatDate(date)\<close>: \<open>dateRef\<close> is the Date object passed in. Three Date objects
  are made (now, a copy of it, a copy of the argument) and only they are changed.
\<close>

definition formatDate :: "env \<Rightarrow> heap \<Rightarrow> nat \<Rightarrow> string \<times> heap" where
  "formatDate e h dateRef =
     (let (today, h1) = Date_new h (now_format e);
          h2 = setHours0 (LocalTZA e) h1 today;
          (tomorrow, h3) = Date_new h2 (getTime h2 today);
          h4 = setDate_next (LocalTZA e) h3 tomorrow;
          (taskDate, h5) = Date_new h4 (getTime h4 dateRef);
          h6 = setHours0 (LocalTZA e) h5 taskDate
      in (if getTime h6 taskDate = getTime h6 today then ''today''
          else if getTime h6 taskDate = getTime h6 tomorrow then ''tomorrow''
          else toLocaleDateString (LocalTZA e) (long_date_bce e) (getTime h6 taskDate),
          h6))"

text \<open>
  The confirmation: a check mark (U+2713 in UTF-8), the title in double quotes, the
  date label, a blank line and the advice.
\<close>

definition confirmation :: "string \<Rightarrow> string \<Rightarrow> string \<Rightarrow> string" where
  "confirmation ti formattedDate adv =
     [CHR 0xE2, CHR 0x9C, CHR 0x93] @ '' I'' @ [CHR 0x27] @ ''ve added '' @ [CHR 0x22] @ ti @
     [CHR 0x22] @ '' to your tasks for '' @ formattedDate @ ''.'' @ [CHR 0x0A, CHR 0x0A] @ adv"

text \<open>
  \<^verbatim>\<open>handleTask\<close>: extraction, advice, save, response. The saved document's date is a
  Date object, here the only cell of the heap \<open>formatDate\<close> works on; the response reads
  it after \<open>formatDate\<close> has returned. The \<^verbatim>\<open>catch\<close> rethrows what it caught.
\<close>

definition handleTask :: "env \<Rightarrow> string \<Rightarrow> world \<Rightarrow> (error + response) \<times> world" where
  "handleTask e userMessage w =
     (case extractTaskInfo e userMessage w of
        (Inl x, w1) \<Rightarrow> (Inl x, w1)
      | (Inr taskInfo, w1) \<Rightarrow>
     (case get_prop taskInfo ''title'' of
        Inl x \<Rightarrow> (Inl x, w1)
      | Inr titleV \<Rightarrow>
     (case generateAdvice e titleV w1 of (adv, w2) \<Rightarrow>
     (case set_prop taskInfo ''advice'' (JStr adv) of
        Inl x \<Rightarrow> (Inl x, w2)
      | Inr taskInfo' \<Rightarrow>
     (case saveTask e taskInfo' w2 of
        (Inl x, w3) \<Rightarrow> (Inl x, w3)
      | (Inr savedTask, w3) \<Rightarrow>
     (case formatDate e [date savedTask] 0 of (formattedDate, h) \<Rightarrow>
        (Inr (TaskResponse
               (confirmation (title savedTask) formattedDate adv)
               \<lparr>v_id = task_id savedTask, v_title = title savedTask, v_date = getTime h 0,
                v_notes = task_notes savedTask, v_advice = advice savedTask\<rparr>),
         w3)))))))"

definition handleConversation :: "env \<Rightarrow> string \<Rightarrow> world \<Rightarrow> response \<times> world" where
  "handleConversation e userMessage w =
     (case sendMessage e ConversationalPrompt userMessage False w of
        (Inl x, w') \<Rightarrow> (ChatResponse greeting, w')
      | (Inr response, w') \<Rightarrow> (ChatResponse response, w'))"

text \<open>
  \<^verbatim>\<open>process\<close>: \<^verbatim>\<open>classification.isTask\<close> is read inside the \<^verbatim>\<open>try\<close>, so a TypeError
  of that read is caught like an error of \<open>handleTask\<close>.
\<close>

definition process :: "env \<Rightarrow> string \<Rightarrow> world \<Rightarrow> response \<times> world" where
  "process e userMessage w =
     (case classify e userMessage w of (classification, w1) \<Rightarrow>
     (case get_prop classification ''isTask'' of
        Inl x \<Rightarrow> (ErrorResponse apology, w1)
      | Inr b \<Rightarrow>
          (if truthy b
           then (case handleTask e userMessage w1 of
                   (Inl x, w2) \<Rightarrow> (ErrorResponse apology, w2)
                 | (Inr r, w2) \<Rightarrow> (r, w2))
           else handleConversation e userMessage w1)))"

section \<open>What the properties speak about\<close>

text \<open>The documents the insert command was sent for, read off the log.\<close>

fun inserts :: "call list \<Rightarrow> task list" where
  "inserts [] = []"
| "inserts (DbInsert t # cs) = t # inserts cs"
| "inserts (c # cs) = inserts cs"

text \<open>
  The message was classified as a task: \<^verbatim>\<open>classification.isTask\<close> could be read and
  is truthy; as no task: it could be read and is falsy.
\<close>

definition classified_task :: "env \<Rightarrow> string \<Rightarrow> world \<Rightarrow> bool" where
  "classified_task e userMessage w =
     (case get_prop (fst (classify e userMessage w)) ''isTask'' of
        Inl x \<Rightarrow> False | Inr b \<Rightarrow> truthy b)"

definition classified_non_task :: "env \<Rightarrow> string \<Rightarrow> world \<Rightarrow> bool" where
  "classified_non_task e userMessage w =
     (case get_prop (fst (classify e userMessage w)) ''isTask'' of
        Inl x \<Rightarrow> False | Inr b \<Rightarrow> \<not> truthy b)"

text \<open>The invariant of the collection: every document has a non-empty title.\<close>

definition titled :: "task list \<Rightarrow> bool" where
  "titled ts = list_all (\<lambda>t. title t \<noteq> []) ts"

section \<open>A sample environment\<close>

text \<open>
  One request on 2026-01-13, 10:00 UTC, in a zone without offset. The completion API
  answers every prompt; the extraction reply has a field the schema does not know.
\<close>

definition sample_api :: "prompt \<Rightarrow> string \<Rightarrow> bool \<Rightarrow> string + string" where
  \<open>sample_api p m j =
     (case p of
        ClassificationPrompt \<Rightarrow> Inr ''{"isTask": true, "confidence": 1}''
      | ExtractionPrompt n \<Rightarrow>
          Inr ''{"title": " Study networking", "date": "2026-02-01", "mood": "keen"}''
      | AdvicePrompt v \<Rightarrow> Inr ''1. Start early ''
      | ConversationalPrompt \<Rightarrow> Inr ''Hi there!'')\<close>

definition sample_parse :: "string \<Rightarrow> jsval option" where
  \<open>sample_parse s =
     (if s = ''{"isTask": true, "confidence": 1}''
      then Some (JObj [(''isTask'', JBool True), (''confidence'', JNum 1)])
      else if s = ''{"isTask": false, "confidence": 1}''
      then Some (JObj [(''isTask'', JBool False), (''confidence'', JNum 1)])
      else if s = ''{"title": " Study networking", "date": "2026-02-01", "mood": "keen"}''
      then Some (JObj [(''title'', JStr '' Study networking''), (''date'', JStr ''2026-02-01''),
                       (''mood'', JStr ''keen'')])
      else if s = ''{"title": " Study networking", "date": "2026-02-01"}''
      then Some (JObj [(''title'', JStr '' Study networking''), (''date'', JStr ''2026-02-01'')])
      else if s = ''{"title": "Study", "date": "soon"}''
      then Some (JObj [(''title'', JStr ''Study''), (''date'', JStr ''soon'')])
      else if s = ''null'' then Some JNull
      else None)\<close>

definition sample_Date :: "jsval \<Rightarrow> jsdate" where
  "sample_Date v =
     (if v = JStr ''2026-01-13'' then TimeValue 1768262400000
      else if v = JStr ''2026-01-14'' then TimeValue 1768348800000
      else if v = JStr ''2026-02-01'' then TimeValue 1769904000000
      else InvalidDate)"

definition sample_env :: env where
  "sample_env =
     \<lparr>aiClient = True, completions_create = sample_api, JSON_parse = sample_parse,
      Date_of = sample_Date, now_extract = 1768298400000, now_create = 1768298400500,
      now_format = 1768298400900, LocalTZA = (\<lambda>t u. 0), long_date_bce = (\<lambda>n. []),
      mongoose_toString = (\<lambda>v. None),
      mongoose_toDate = (\<lambda>v. InvalidDate), ObjectId = 7, db_available = True\<rparr>"

definition sample_task :: task where
  "sample_task =
     \<lparr>task_id = 3, title = ''Call mom'', date = 1768262400000, advice = [],
      task_notes = [], completed = False, createdAt = 1768000000000\<rparr>"

definition sample_world :: world where
  "sample_world = \<lparr>docs = [sample_task], calls = []\<rparr>"

text \<open>Variants: the classifier says no task; the extracted date does not parse; the
  advice request is rejected; the classifier's reply is the JSON text \<^verbatim>\<open>null\<close>.\<close>

definition chat_env :: env where
  \<open>chat_env =
     sample_env\<lparr>completions_create :=
       (\<lambda>p m j. case p of
          ClassificationPrompt \<Rightarrow> Inr ''{"isTask": false, "confidence": 1}''
        | _ \<Rightarrow> sample_api p m j)\<rparr>\<close>

definition bad_date_env :: env where
  \<open>bad_date_env =
     sample_env\<lparr>completions_create :=
       (\<lambda>p m j. case p of
          ExtractionPrompt n \<Rightarrow> Inr ''{"title": "Study", "date": "soon"}''
        | _ \<Rightarrow> sample_api p m j)\<rparr>\<close>

definition no_advice_env :: env where
  "no_advice_env =
     sample_env\<lparr>completions_create :=
       (\<lambda>p m j. case p of
          AdvicePrompt v \<Rightarrow> Inl ''429 Too Many Requests''
        | _ \<Rightarrow> sample_api p m j)\<rparr>"

definition null_env :: env where
  "null_env = sample_env\<lparr>completions_create := (\<lambda>p m j. Inr ''null'')\<rparr>"

text \<open>An update that marks a task as done.\<close>

definition mark_done :: updates where
  "mark_done = \<lparr>u_completed = Some True, u_title = None, u_date = None, u_notes = None\<rparr>"

text \<open>
  A collection of five tasks on 2026-01-13, 2026-01-14 and 2026-02-01, and the filter
  \<^verbatim>\<open>{completed: true, dateFrom: '2026-01-13', dateTo: '2026-01-14'}\<close>.
\<close>

definition mk_task :: "nat \<Rightarrow> string \<Rightarrow> int \<Rightarrow> bool \<Rightarrow> int \<Rightarrow> task" where
  "mk_task i ti d c t =
     \<lparr>task_id = i, title = ti, date = d, advice = [], task_notes = [], completed = c,
      createdAt = t\<rparr>"

definition sample_docs :: "task list" where
  "sample_docs =
     [mk_task 1 ''Pay rent'' 1768348800000 True 100,
      mk_task 2 ''Buy milk'' 1768262400000 True 200,
      mk_task 3 ''Call mom'' 1768262400000 True 300,
      mk_task 4 ''Read'' 1768262400000 False 400,
      mk_task 5 ''Study'' 1769904000000 True 500]"

definition sample_filters :: filters where
  "sample_filters =
     \<lparr>f_completed = Some True, f_dateFrom = JStr ''2026-01-13'', f_dateTo = JStr ''2026-01-14''\<rparr>"

text \<open>What the sample extraction returns, and the document saved from it with advice \<open>a\<close>.\<close>

definition sample_info :: jsval where
  "sample_info =
     JObj [(''date'', JDate (TimeValue 1769904000000)), (''title'', JStr '' Study networking''),
           (''mood'', JStr ''keen'')]"

definition sample_saved :: "string \<Rightarrow> task" where
  "sample_saved a =
     \<lparr>task_id = 7, title = ''Study networking'', date = 1769904000000, advice = a,
      task_notes = [], completed = False, createdAt = 1768298400500\<rparr>"

text \<open>
  The same environment, except that the completion API answers every extraction request
  with \<open>r\<close>; an update that blanks the title; and the sample extraction without its
  unknown field.
\<close>

definition with_extraction_reply :: "env \<Rightarrow> string \<Rightarrow> env" where
  "with_extraction_reply e r =
     e\<lparr>completions_create :=
         (\<lambda>p m j. case p of ExtractionPrompt n \<Rightarrow> Inr r | _ \<Rightarrow> completions_create e p m j)\<rparr>"

definition blank_title :: updates where
  "blank_title =
     \<lparr>u_completed = None, u_title = Some (JStr ''   ''), u_date = None, u_notes = None\<rparr>"

definition plain_reply :: string where
  \<open>plain_reply = ''{"title": " Study networking", "date": "2026-02-01"}''\<close>





section \<open>What a call leaves unchanged\<close>

lemma inserts_append: "inserts (xs @ ys) = inserts xs @ inserts ys"
  by (induction xs rule: inserts.induct) simp_all

lemma sendMessage_frame:
  "docs (snd (sendMessage e p m j w)) = docs w \<and>
   inserts (calls (snd (sendMessage e p m j w))) = inserts (calls w)"
  by (simp add: sendMessage_def logged_def inserts_append split: sum.splits)

lemma sendMessage_calls:
  "calls (snd (sendMessage e p m j w)) =
     calls w @ (if aiClient e then [Completion p m j] else [])"
  by (simp add: sendMessage_def logged_def split: sum.splits)

lemma classify_frame:
  "docs (snd (classify e m w)) = docs w \<and>
   inserts (calls (snd (classify e m w))) = inserts (calls w)"
  using sendMessage_frame [of e ClassificationPrompt m True w]
  by (auto simp: classify_def split: prod.splits sum.splits option.splits)

lemma classify_calls:
  "calls (snd (classify e m w)) =
     calls w @ (if aiClient e then [Completion ClassificationPrompt m True] else [])"
  using sendMessage_calls [of e ClassificationPrompt m True w]
  by (auto simp: classify_def split: prod.splits sum.splits option.splits)

lemma classified_task_aiClient: "classified_task e m w \<Longrightarrow> aiClient e"
  by (auto simp: classified_task_def classify_def sendMessage_def nonTask_def
      split: sum.splits prod.splits option.splits if_splits)

lemma extractTaskInfo_frame:
  "docs (snd (extractTaskInfo e m w)) = docs w \<and>
   inserts (calls (snd (extractTaskInfo e m w))) = inserts (calls w)"
  using sendMessage_frame [of e "ExtractionPrompt (now_extract e)" m True w]
  by (auto simp: extractTaskInfo_def split: prod.splits sum.splits option.splits)

lemma generateAdvice_frame:
  "docs (snd (generateAdvice e v w)) = docs w \<and>
   inserts (calls (snd (generateAdvice e v w))) = inserts (calls w)"
  using sendMessage_frame [of e "AdvicePrompt v" "[]" False w]
  by (auto simp: generateAdvice_def split: prod.splits sum.splits)

lemma handleConversation_result:
  "isTask (fst (handleConversation e m w)) = Some False \<and>
   docs (snd (handleConversation e m w)) = docs w \<and>
   calls (snd (handleConversation e m w)) =
     calls w @ (if aiClient e then [Completion ConversationalPrompt m False] else [])"
  using sendMessage_frame [of e ConversationalPrompt m False w]
    sendMessage_calls [of e ConversationalPrompt m False w]
  by (auto simp: handleConversation_def isTask_def split: prod.splits sum.splits)

section \<open>Properties of objects\<close>

lemma map_of_filter_other:
  "k' \<noteq> k \<Longrightarrow> map_of (filter (\<lambda>p. fst p \<noteq> k) ps) k' = map_of ps k'"
  by (induction ps) auto

lemma get_prop_set_prop_other:
  "set_prop v k x = Inr v' \<Longrightarrow> k' \<noteq> k \<Longrightarrow> get_prop v' k' = get_prop v k'"
  by (cases v) (auto simp: map_of_filter_other)

lemma get_prop_set_prop_same:
  "set_prop v k x = Inr v' \<Longrightarrow> get_prop v' k = Inr x"
  by (cases v) auto

lemma set_prop_total:
  "set_prop v k x = Inr v' \<Longrightarrow> \<exists>y. set_prop v' k' x' = Inr y"
  by (cases v) auto

lemma get_prop_after_set:
  "set_prop v k x = Inr v' \<Longrightarrow> \<exists>y. get_prop v' k' = Inr y"
  by (cases v) auto

section \<open>A failed extraction\<close>

lemma saveTask_invalid_date:
  "get_prop info ''date'' = Inr (JDate InvalidDate) \<Longrightarrow>
   saveTask e info w = (Inl (Error ''Failed to save task to database''), w)"
  by (simp add: saveTask_def Task_new_def date_path_def split: sum.splits)

lemma extractTaskInfo_date:
  "fst (extractTaskInfo e m w) = Inr info \<Longrightarrow>
   \<exists>r v d. completions_create e (ExtractionPrompt (now_extract e)) m True = Inr r \<and>
     JSON_parse e r = Some v \<and> get_prop v ''date'' = Inr d \<and>
     set_prop v ''date'' (JDate (Date_of e d)) = Inr info"
  by (auto simp: extractTaskInfo_def sendMessage_def
      split: prod.splits sum.splits option.splits if_splits)

lemma handleTask_extract_failed:
  assumes "fst (extractTaskInfo e m w) = Inl x"
  shows "(\<exists>y. fst (handleTask e m w) = Inl y) \<and>
         docs (snd (handleTask e m w)) = docs w \<and>
         inserts (calls (snd (handleTask e m w))) = inserts (calls w)"
  using assms extractTaskInfo_frame [of e m w]
  by (cases "extractTaskInfo e m w") (auto simp: handleTask_def)

lemma handleTask_bad_date:
  assumes x: "fst (extractTaskInfo e m w) = Inr info"
    and d: "get_prop info ''date'' = Inr (JDate InvalidDate)"
  shows "(\<exists>y. fst (handleTask e m w) = Inl y) \<and>
         docs (snd (handleTask e m w)) = docs w \<and>
         inserts (calls (snd (handleTask e m w))) = inserts (calls w)"
proof -
  obtain w1 where x1: "extractTaskInfo e m w = (Inr info, w1)"
    using x by (cases "extractTaskInfo e m w") auto
  have w1: "docs w1 = docs w" "inserts (calls w1) = inserts (calls w)"
    using extractTaskInfo_frame [of e m w] x1 by simp_all
  obtain v d' where s: "set_prop v ''date'' d' = Inr info"
    using extractTaskInfo_date [OF x] by blast
  obtain titleV where t: "get_prop info ''title'' = Inr titleV"
    using get_prop_after_set [OF s] by blast
  obtain adv w2 where g: "generateAdvice e titleV w1 = (adv, w2)"
    by (cases "generateAdvice e titleV w1")
  have w2: "docs w2 = docs w" "inserts (calls w2) = inserts (calls w)"
    using generateAdvice_frame [of e titleV w1] g w1 by simp_all
  obtain info' where s': "set_prop info ''advice'' (JStr adv) = Inr info'"
    using set_prop_total [OF s] by blast
  have "get_prop info' ''date'' = Inr (JDate InvalidDate)"
    using get_prop_set_prop_other [OF s', of "''date''"] d by simp
  then have "saveTask e info' w2 = (Inl (Error ''Failed to save task to database''), w2)"
    by (rule saveTask_invalid_date)
  then have "handleTask e m w = (Inl (Error ''Failed to save task to database''), w2)"
    using x1 t g s' by (simp add: handleTask_def)
  then show ?thesis using w2 by simp
qed

text \<open>
  C1. A message is classified as a task, and the extraction goes wrong: the completion
  request is rejected, or its reply is no JSON, or the date of the parsed reply gives the
  Invalid Date, or the tool throws for any other reason. Then \<open>process\<close> returns the
  apology with \<^verbatim>\<open>error: true\<close>, the collection is as before, and no insert command has
  been sent. (With a bad date the tool itself returns, and the schema's validation in
  \<open>saveTask\<close> stops the document before anything is sent.)
\<close>

theorem extraction_failure_is_fatal:
  assumes task: "classified_task e userMessage w"
    and failure:
      "(\<exists>x. completions_create e (ExtractionPrompt (now_extract e)) userMessage True = Inl x) \<or>
       (\<exists>r. completions_create e (ExtractionPrompt (now_extract e)) userMessage True = Inr r \<and>
            JSON_parse e r = None) \<or>
       (\<exists>r v d. completions_create e (ExtractionPrompt (now_extract e)) userMessage True = Inr r \<and>
            JSON_parse e r = Some v \<and> get_prop v ''date'' = Inr d \<and>
            Date_of e d = InvalidDate) \<or>
       (\<exists>x. fst (extractTaskInfo e userMessage (snd (classify e userMessage w))) = Inl x)"
  shows "fst (process e userMessage w) = ErrorResponse apology \<and>
         docs (snd (process e userMessage w)) = docs w \<and>
         inserts (calls (snd (process e userMessage w))) = inserts (calls w)"
proof -
  obtain c w1 where c: "classify e userMessage w = (c, w1)"
    by (cases "classify e userMessage w")
  from task c obtain b where b: "get_prop c ''isTask'' = Inr b" "truthy b"
    by (auto simp: classified_task_def split: sum.splits)
  have w1: "docs w1 = docs w" "inserts (calls w1) = inserts (calls w)"
    using classify_frame [of e userMessage w] c by simp_all
  let ?x = "fst (extractTaskInfo e userMessage w1)"
  have "(\<exists>x. ?x = Inl x) \<or>
        (\<exists>info. ?x = Inr info \<and> get_prop info ''date'' = Inr (JDate InvalidDate))"
  proof (cases ?x)
    case (Inl x)
    then show ?thesis by simp
  next
    case (Inr info)
    from extractTaskInfo_date [OF Inr] obtain r v d where
      r: "completions_create e (ExtractionPrompt (now_extract e)) userMessage True = Inr r"
        "JSON_parse e r = Some v" "get_prop v ''date'' = Inr d"
        "set_prop v ''date'' (JDate (Date_of e d)) = Inr info"
      by blast
    with failure c Inr have "Date_of e d = InvalidDate" by auto
    with r(4) have "get_prop info ''date'' = Inr (JDate InvalidDate)"
      using get_prop_set_prop_same by metis
    with Inr show ?thesis by simp
  qed
  then have h: "(\<exists>y. fst (handleTask e userMessage w1) = Inl y) \<and>
         docs (snd (handleTask e userMessage w1)) = docs w1 \<and>
         inserts (calls (snd (handleTask e userMessage w1))) = inserts (calls w1)"
    using handleTask_extract_failed handleTask_bad_date by blast
  then obtain y w2 where ht: "handleTask e userMessage w1 = (Inl y, w2)"
    by (cases "handleTask e userMessage w1") auto
  have "process e userMessage w = (ErrorResponse apology, w2)"
    using c b ht by (simp add: process_def)
  then show ?thesis using h ht w1 by simp
qed

theorem extraction_failure_is_fatal_witness:
  \<open>classified_task bad_date_env ''Remind me to study soon'' sample_world \<and>
   (\<exists>r v d. completions_create bad_date_env (ExtractionPrompt (now_extract bad_date_env))
        ''Remind me to study soon'' True = Inr r \<and>
      JSON_parse bad_date_env r = Some v \<and> get_prop v ''date'' = Inr d \<and>
      Date_of bad_date_env d = InvalidDate) \<and>
   fst (process bad_date_env ''Remind me to study soon'' sample_world) = ErrorResponse apology \<and>
   docs (snd (process bad_date_env ''Remind me to study soon'' sample_world)) = [sample_task] \<and>
   inserts (calls (snd (process bad_date_env ''Remind me to study soon'' sample_world))) = []\<close>
proof -
  have task: "classified_task bad_date_env ''Remind me to study soon'' sample_world"
    by code_simp
  have reply: \<open>completions_create bad_date_env (ExtractionPrompt (now_extract bad_date_env))
      ''Remind me to study soon'' True = Inr ''{"title": "Study", "date": "soon"}''\<close>
    by code_simp
  have parsed: \<open>JSON_parse bad_date_env ''{"title": "Study", "date": "soon"}'' =
      Some (JObj [(''title'', JStr ''Study''), (''date'', JStr ''soon'')]) \<and>
    get_prop (JObj [(''title'', JStr ''Study''), (''date'', JStr ''soon'')]) ''date'' =
      Inr (JStr ''soon'') \<and>
    Date_of bad_date_env (JStr ''soon'') = InvalidDate\<close>
    by code_simp
  have bad: "\<exists>r v d. completions_create bad_date_env (ExtractionPrompt (now_extract bad_date_env))
        ''Remind me to study soon'' True = Inr r \<and>
      JSON_parse bad_date_env r = Some v \<and> get_prop v ''date'' = Inr d \<and>
      Date_of bad_date_env d = InvalidDate"
    using reply parsed by blast
  have w: "docs sample_world = [sample_task]" "inserts (calls sample_world) = []"
    by (simp_all add: sample_world_def)
  show ?thesis
    using task bad extraction_failure_is_fatal [OF task] w by simp
qed

section \<open>A message that is no task\<close>

text \<open>
  C7. A message classified as no task is answered by the conversation branch: the
  response has \<^verbatim>\<open>isTask: false\<close>, the collection is as before, and the only calls that
  left the process are the classification request and the conversational request, so
  neither the extraction nor the advice nor an insert was invoked.
\<close>

theorem non_task_is_conversation:
  assumes "classified_non_task e userMessage w"
  shows "isTask (fst (process e userMessage w)) = Some False \<and>
         docs (snd (process e userMessage w)) = docs w \<and>
         calls (snd (process e userMessage w)) =
           calls w @ (if aiClient e
                      then [Completion ClassificationPrompt userMessage True,
                            Completion ConversationalPrompt userMessage False]
                      else [])"
proof -
  obtain c w1 where c: "classify e userMessage w = (c, w1)"
    by (cases "classify e userMessage w")
  from assms c obtain b where b: "get_prop c ''isTask'' = Inr b" "\<not> truthy b"
    by (auto simp: classified_non_task_def split: sum.splits)
  have p: "process e userMessage w = handleConversation e userMessage w1"
    using c b by (simp add: process_def)
  have w1: "docs w1 = docs w"
    "calls w1 =
       calls w @ (if aiClient e then [Completion ClassificationPrompt userMessage True] else [])"
    using classify_frame [of e userMessage w] classify_calls [of e userMessage w] c by simp_all
  show ?thesis
    using handleConversation_result [of e userMessage w1] w1 by (simp add: p)
qed

theorem non_task_is_conversation_witness:
  "classified_non_task chat_env ''How are you?'' sample_world \<and>
   isTask (fst (process chat_env ''How are you?'' sample_world)) = Some False \<and>
   docs (snd (process chat_env ''How are you?'' sample_world)) = [sample_task] \<and>
   calls (snd (process chat_env ''How are you?'' sample_world)) =
     [Completion ClassificationPrompt ''How are you?'' True,
      Completion ConversationalPrompt ''How are you?'' False]"
proof -
  have h: "classified_non_task chat_env ''How are you?'' sample_world"
    by code_simp
  have a: "aiClient chat_env" by code_simp
  have w: "docs sample_world = [sample_task]" "calls sample_world = []"
    by (simp_all add: sample_world_def)
  show ?thesis
    using h a w non_task_is_conversation [OF h] by simp
qed

section \<open>An id that is not in the collection\<close>

text \<open>
  C2. The specification asks that an update or a delete of an absent id fails with a
  condition of its own. Evaluated on a collection that has no document 9: \<open>updateTask\<close> fails with
  \<^verbatim>\<open>Error('Failed to update task')\<close>, the very error it fails with when the database does
  not answer, and \<open>deleteTask\<close> likewise with \<^verbatim>\<open>Error('Failed to delete task')\<close>: the
  \<^verbatim>\<open>Error('Task not found')\<close> is thrown inside the \<^verbatim>\<open>try\<close> and replaced by its \<^verbatim>\<open>catch\<close>.
\<close>

theorem not_found_is_generic_failure:
  "task_id sample_task \<noteq> 9 \<and> docs sample_world = [sample_task] \<and>
   fst (updateTask sample_env 9 mark_done sample_world) = Inl (Error ''Failed to update task'') \<and>
   fst (updateTask (sample_env\<lparr>db_available := False\<rparr>) 3 mark_done sample_world) =
     Inl (Error ''Failed to update task'') \<and>
   fst (deleteTask sample_env 9 sample_world) = Inl (Error ''Failed to delete task'') \<and>
   fst (deleteTask (sample_env\<lparr>db_available := False\<rparr>) 3 sample_world) =
     Inl (Error ''Failed to delete task'')"
  by code_simp

text \<open>Whatever makes them fail, the two tools fail with one error each.\<close>

lemma updateTask_one_error:
  "fst (updateTask e i u w) = Inl x \<Longrightarrow> x = Error ''Failed to update task''"
  by (cases "findByIdAndUpdate e i u w")
    (auto simp: updateTask_def split: sum.splits option.splits)

lemma deleteTask_one_error:
  "fst (deleteTask e i w) = Inl x \<Longrightarrow> x = Error ''Failed to delete task''"
  by (cases "findByIdAndDelete e i w")
    (auto simp: deleteTask_def split: sum.splits option.splits)

section \<open>A classification that is not an object\<close>

text \<open>
  C5. The specification asks that \<open>process\<close> never returns the error variant unless it
  took the task branch. Evaluated where the classifier's reply is the JSON text \<^verbatim>\<open>null\<close>:
  the reply parses, \<open>classify\<close> returns null, reading \<^verbatim>\<open>classification.isTask\<close> throws,
  and \<open>process\<close> returns the apology with \<^verbatim>\<open>error: true\<close> after the classification
  request alone.
\<close>

theorem null_classification_is_an_error:
  "JSON_parse null_env ''null'' = Some JNull \<and>
   classify null_env ''hello'' sample_world =
     (JNull, sample_world\<lparr>calls := [Completion ClassificationPrompt ''hello'' True]\<rparr>) \<and>
   process null_env ''hello'' sample_world =
     (ErrorResponse apology,
      sample_world\<lparr>calls := [Completion ClassificationPrompt ''hello'' True]\<rparr>)"
  by code_simp

text \<open>The same for every message and every environment in which \<open>classify\<close> returns null.\<close>

lemma null_classification_general:
  "fst (classify e m w) = JNull \<Longrightarrow> fst (process e m w) = ErrorResponse apology"
  by (cases "classify e m w") (simp add: process_def)

text \<open>
  What does hold: a failed classification (a rejected request, a reply that is no JSON)
  gives the default, and the conversation branch never fails.
\<close>

lemma classify_failure_default:
  assumes "\<not> aiClient e \<or> (\<exists>x. completions_create e ClassificationPrompt m True = Inl x) \<or>
           (\<exists>r. completions_create e ClassificationPrompt m True = Inr r \<and> JSON_parse e r = None)"
  shows "fst (classify e m w) = nonTask"
  using assms
  by (auto simp: classify_def sendMessage_def split: prod.splits sum.splits option.splits)

lemma handleConversation_fallback:
  assumes "\<not> aiClient e \<or> (\<exists>x. completions_create e ConversationalPrompt m False = Inl x)"
  shows "fst (handleConversation e m w) = ChatResponse greeting"
  using assms
  by (auto simp: handleConversation_def sendMessage_def split: prod.splits sum.splits)

section \<open>The date label\<close>


text \<open>The three Date objects \<open>formatDate\<close> allocates, and its result.\<close>

lemma formatDate_eq:
  assumes "r < length h"
  shows "formatDate e h r =
    (let z = LocalTZA e;
         today = local_midnight z (localDay z (now_format e));
         lt = LocalTime z today;
         tomorrow = UTC z ((Day lt + 1) * msPerDay + TimeWithinDay lt);
         taskDate = local_midnight z (localDay z (h ! r))
     in (if taskDate = today then ''today''
         else if taskDate = tomorrow then ''tomorrow''
         else toLocaleDateString z (long_date_bce e) taskDate,
         h @ [today, tomorrow, taskDate]))"
  using assms
  by (simp add: formatDate_def Date_new_def setHours0_def setDate_next_def getTime_def
      Let_def nth_append local_midnight_def localDay_def)







section \<open>Listing\<close>

lemma matches_plain:
  assumes "query_castable (build_query e f)"
  shows "matches (build_query e f) t =
     ((case f_completed f of None \<Rightarrow> True | Some b \<Rightarrow> completed t = b) \<and>
      (if truthy (f_dateFrom f)
       then (case Date_of e (f_dateFrom f) of InvalidDate \<Rightarrow> False | TimeValue d1 \<Rightarrow> d1 \<le> date t)
       else True) \<and>
      (if truthy (f_dateTo f)
       then (case Date_of e (f_dateTo f) of InvalidDate \<Rightarrow> False | TimeValue d2 \<Rightarrow> date t \<le> d2)
       else True))"
  using assms
  by (auto simp: matches_def build_query_def query_castable_def split: option.splits jsdate.splits)

lemma sorted_sort_order:
  assumes "sorted (map sort_order ts)" "i < j" "j < length ts"
  shows "date (ts ! i) < date (ts ! j) \<or>
         (date (ts ! i) = date (ts ! j) \<and> createdAt (ts ! j) \<le> createdAt (ts ! i))"
proof -
  have "map sort_order ts ! i \<le> map sort_order ts ! j"
    using assms by (simp add: sorted_iff_nth_mono_less del: nth_map)
  then show ?thesis using assms by (auto simp: sort_order_def)
qed

text \<open>
  C8. When the database answers and the dates of the filter are dates, \<open>getTasks\<close>
  returns, leaves the collection as it is, and its result holds exactly the documents
  (each as often as the collection holds it) that satisfy every condition supplied:
  \<open>completed\<close> equal to the one asked for, the date not before \<open>dateFrom\<close>, the date not
  after \<open>dateTo\<close>. Of two documents in the result the earlier one has the smaller date,
  or the same date and a creation time that is not smaller.
\<close>

theorem getTasks_filters_and_orders:
  assumes db: "db_available e"
    and dateFrom: "truthy (f_dateFrom f) \<Longrightarrow> Date_of e (f_dateFrom f) \<noteq> InvalidDate"
    and dateTo: "truthy (f_dateTo f) \<Longrightarrow> Date_of e (f_dateTo f) \<noteq> InvalidDate"
  shows "\<exists>ts w'. getTasks e f w = (Inr ts, w') \<and> docs w' = docs w \<and>
     mset ts =
       filter_mset
         (\<lambda>t. (case f_completed f of None \<Rightarrow> True | Some b \<Rightarrow> completed t = b) \<and>
              (if truthy (f_dateFrom f)
               then (case Date_of e (f_dateFrom f) of
                       InvalidDate \<Rightarrow> False | TimeValue d1 \<Rightarrow> d1 \<le> date t)
               else True) \<and>
              (if truthy (f_dateTo f)
               then (case Date_of e (f_dateTo f) of
                       InvalidDate \<Rightarrow> False | TimeValue d2 \<Rightarrow> date t \<le> d2)
               else True))
         (mset (docs w)) \<and>
     (\<forall>i j. i < j \<and> j < length ts \<longrightarrow>
        date (ts ! i) < date (ts ! j) \<or>
        (date (ts ! i) = date (ts ! j) \<and> createdAt (ts ! j) \<le> createdAt (ts ! i)))"
proof -
  let ?q = "build_query e f"
  let ?ts = "sort_key sort_order (filter (matches ?q) (docs w))"
  have c: "query_castable ?q"
    using dateFrom dateTo by (auto simp: query_castable_def build_query_def)
  have g: "getTasks e f w = (Inr ?ts, logged DbFind w)"
    using db c by (simp add: getTasks_def Let_def)
  have m: "mset ?ts = filter_mset (matches ?q) (mset (docs w))"
    by simp
  have s: "sorted (map sort_order ?ts)"
    by (rule sorted_sort_key)
  show ?thesis
    using g m sorted_sort_order [OF s]
    by (simp add: matches_plain [OF c] logged_def)
qed

text \<open>The five sample tasks under the sample filter: three remain, in order.\<close>

theorem getTasks_filters_and_orders_witness:
  "db_available sample_env \<and>
   Date_of sample_env (f_dateFrom sample_filters) = TimeValue 1768262400000 \<and>
   Date_of sample_env (f_dateTo sample_filters) = TimeValue 1768348800000 \<and>
   fst (getTasks sample_env sample_filters \<lparr>docs = sample_docs, calls = []\<rparr>) =
     Inr [mk_task 3 ''Call mom'' 1768262400000 True 300,
          mk_task 2 ''Buy milk'' 1768262400000 True 200,
          mk_task 1 ''Pay rent'' 1768348800000 True 100] \<and>
   (\<exists>ts w'. getTasks sample_env sample_filters \<lparr>docs = sample_docs, calls = []\<rparr> = (Inr ts, w') \<and>
      docs w' = sample_docs \<and>
      mset ts =
        filter_mset
          (\<lambda>t. completed t \<and> 1768262400000 \<le> date t \<and> date t \<le> 1768348800000)
          (mset sample_docs))"
proof -
  have db: "db_available sample_env" by code_simp
  have d1: "Date_of sample_env (f_dateFrom sample_filters) = TimeValue 1768262400000"
    by code_simp
  have d2: "Date_of sample_env (f_dateTo sample_filters) = TimeValue 1768348800000"
    by code_simp
  have f: "f_completed sample_filters = Some True \<and> truthy (f_dateFrom sample_filters) \<and>
    truthy (f_dateTo sample_filters)"
    by code_simp
  have r: "fst (getTasks sample_env sample_filters \<lparr>docs = sample_docs, calls = []\<rparr>) =
     Inr [mk_task 3 ''Call mom'' 1768262400000 True 300,
          mk_task 2 ''Buy milk'' 1768262400000 True 200,
          mk_task 1 ''Pay rent'' 1768348800000 True 100]"
    by code_simp
  have t: "\<exists>ts w'. getTasks sample_env sample_filters \<lparr>docs = sample_docs, calls = []\<rparr> = (Inr ts, w') \<and>
      docs w' = sample_docs \<and>
      mset ts =
        filter_mset
          (\<lambda>t. completed t \<and> 1768262400000 \<le> date t \<and> date t \<le> 1768348800000)
          (mset sample_docs)"
    using getTasks_filters_and_orders [of sample_env sample_filters "\<lparr>docs = sample_docs, calls = []\<rparr>"]
      db d1 d2 f by auto
  show ?thesis using db d1 d2 r t by (intro conjI)
qed

section \<open>The task branch\<close>

lemma orEmpty_JStr: "orEmpty (JStr s) = JStr s"
  by (simp add: orEmpty_def)

lemma Task_new_fields:
  assumes "Task_new e tv dv nv av = Inr t"
  shows "title_path e tv = Inr (title t) \<and> date_path e dv = Inr (date t) \<and>
         text_path ''advice'' e av = Inr (advice t) \<and>
         text_path ''notes'' e nv = Inr (task_notes t) \<and>
         completed t = False \<and> createdAt t = now_create e \<and> task_id t = ObjectId e"
  using assms by (auto simp: Task_new_def split: sum.splits)

lemma insertOne_ok:
  assumes "insertOne e t w = (Inr t', w')"
  shows "t' = t \<and> docs w' = docs w @ [t] \<and> calls w' = calls w @ [DbInsert t]"
  using assms by (auto simp: insertOne_def logged_def Let_def split: if_splits)

lemma insertOne_failed:
  assumes "insertOne e t w = (Inl x, w')"
  shows "docs w' = docs w"
  using assms by (auto simp: insertOne_def logged_def Let_def split: if_splits)

lemma saveTask_ok:
  assumes "saveTask e info w = (Inr t, w')"
  shows "docs w' = docs w @ [t] \<and> calls w' = calls w @ [DbInsert t] \<and>
         (\<exists>tv dv nv av. get_prop info ''title'' = Inr tv \<and> get_prop info ''date'' = Inr dv \<and>
            get_prop info ''notes'' = Inr nv \<and> get_prop info ''advice'' = Inr av \<and>
            Task_new e tv dv (orEmpty nv) (orEmpty av) = Inr t)"
proof -
  from assms obtain tv dv nv av t0 where
    g: "get_prop info ''title'' = Inr tv" "get_prop info ''date'' = Inr dv"
       "get_prop info ''notes'' = Inr nv" "get_prop info ''advice'' = Inr av"
       "Task_new e tv dv (orEmpty nv) (orEmpty av) = Inr t0"
    and i: "insertOne e t0 w = (Inr t, w')"
    by (auto simp: saveTask_def split: sum.splits prod.splits)
  from insertOne_ok [OF i] g show ?thesis by auto
qed

lemma saveTask_failed:
  assumes "saveTask e info w = (Inl x, w')"
  shows "docs w' = docs w"
  using assms insertOne_failed
  by (fastforce simp: saveTask_def split: sum.splits prod.splits)

lemma insertOne_fst_docs:
  "docs w = docs w' \<Longrightarrow> fst (insertOne e t w) = fst (insertOne e t w')"
  by (simp add: insertOne_def Let_def)

lemma saveTask_fst_docs:
  assumes "docs w = docs w'"
  shows "fst (saveTask e info w) = fst (saveTask e info w')"
proof -
  have "fst (case insertOne e t w of (Inl x, w') \<Rightarrow> (Inl (Error ''Failed to save task to database''), w')
          | (Inr s, w') \<Rightarrow> (Inr s, w')) =
        fst (case insertOne e t w' of (Inl x, w') \<Rightarrow> (Inl (Error ''Failed to save task to database''), w')
          | (Inr s, w') \<Rightarrow> (Inr s, w'))" for t
    using insertOne_fst_docs [OF assms, of e t]
    by (cases "insertOne e t w"; cases "insertOne e t w'") (auto split: sum.splits)
  then show ?thesis
    by (simp add: saveTask_def split: sum.splits)
qed

lemma formatDate_single: "getTime (snd (formatDate e [d] 0)) 0 = d"
  by (simp add: formatDate_eq Let_def getTime_def)

lemma handleTask_success:
  assumes ext: "extractTaskInfo e m w = (Inr info, w1)"
    and ti: "get_prop info ''title'' = Inr titleV"
    and adv: "generateAdvice e titleV w1 = (a, w2)"
    and inf: "set_prop info ''advice'' (JStr a) = Inr info'"
    and sav: "saveTask e info' w2 = (Inr t, w3)"
  shows "handleTask e m w =
    (Inr (TaskResponse (confirmation (title t) (fst (formatDate e [date t] 0)) a)
      \<lparr>v_id = task_id t, v_title = title t, v_date = date t,
       v_notes = task_notes t, v_advice = advice t\<rparr>), w3)"
  using assms formatDate_single [of e "date t"]
  by (auto simp: handleTask_def split: prod.splits)

lemma generateAdvice_fst:
  "fst (generateAdvice e v w) =
     (if aiClient e then (case completions_create e (AdvicePrompt v) [] False of
         Inl x \<Rightarrow> fallbackAdvice | Inr a \<Rightarrow> trim a) else fallbackAdvice)"
  by (simp add: generateAdvice_def sendMessage_def split: sum.splits)

lemma task_branch:
  assumes task: "classified_task e msg w"
    and extraction: "fst (extractTaskInfo e msg (snd (classify e msg w))) = Inr info"
    and ti: "get_prop info ''title'' = Inr titleV"
    and inf: "set_prop info ''advice'' (JStr (fst (generateAdvice e titleV w0))) = Inr info'"
    and persisted: "fst (saveTask e info' w) = Inr t"
  shows "fst (process e msg w) =
           TaskResponse
             (confirmation (title t) (fst (formatDate e [date t] 0)) (fst (generateAdvice e titleV w0)))
             \<lparr>v_id = task_id t, v_title = title t, v_date = date t,
              v_notes = task_notes t, v_advice = advice t\<rparr> \<and>
         docs (snd (process e msg w)) = docs w @ [t] \<and>
         inserts (calls (snd (process e msg w))) = inserts (calls w) @ [t] \<and>
         advice t = fst (generateAdvice e titleV w0)"
proof -
  obtain c w1 where c: "classify e msg w = (c, w1)"
    by (cases "classify e msg w")
  from task c obtain b where b: "get_prop c ''isTask'' = Inr b" "truthy b"
    by (auto simp: classified_task_def split: sum.splits)
  have w1: "docs w1 = docs w" "inserts (calls w1) = inserts (calls w)"
    using classify_frame [of e msg w] c by simp_all
  obtain w2 where x: "extractTaskInfo e msg w1 = (Inr info, w2)"
    using extraction c by (cases "extractTaskInfo e msg w1") auto
  have w2: "docs w2 = docs w" "inserts (calls w2) = inserts (calls w)"
    using extractTaskInfo_frame [of e msg w1] x w1 by simp_all
  let ?a = "fst (generateAdvice e titleV w0)"
  obtain w3 where g: "generateAdvice e titleV w2 = (?a, w3)"
    using generateAdvice_fst [of e titleV w2] generateAdvice_fst [of e titleV w0]
    by (cases "generateAdvice e titleV w2") auto
  have w3: "docs w3 = docs w" "inserts (calls w3) = inserts (calls w)"
    using generateAdvice_frame [of e titleV w2] g w2 by simp_all
  obtain w4 where s: "saveTask e info' w3 = (Inr t, w4)"
    using persisted saveTask_fst_docs [of w3 w e info'] w3
    by (cases "saveTask e info' w3") auto
  note ok = saveTask_ok [OF s]
  have h: "handleTask e msg w1 =
    (Inr (TaskResponse (confirmation (title t) (fst (formatDate e [date t] 0)) ?a)
      \<lparr>v_id = task_id t, v_title = title t, v_date = date t,
       v_notes = task_notes t, v_advice = advice t\<rparr>), w4)"
    by (rule handleTask_success [OF x ti g inf s])
  have p: "process e msg w =
    (TaskResponse (confirmation (title t) (fst (formatDate e [date t] 0)) ?a)
      \<lparr>v_id = task_id t, v_title = title t, v_date = date t,
       v_notes = task_notes t, v_advice = advice t\<rparr>, w4)"
    using c b h by (simp add: process_def)
  have "get_prop info' ''advice'' = Inr (JStr ?a)"
    using get_prop_set_prop_same [OF inf] .
  with ok have "text_path ''advice'' e (JStr ?a) = Inr (advice t)"
    using Task_new_fields by (fastforce simp: orEmpty_JStr)
  then have a: "advice t = ?a"
    by (simp add: text_path_def)
  show ?thesis
    using p ok w3 a by (simp add: inserts_append)
qed

text \<open>
  C3. A message is classified as a task; the extraction returns \<open>info\<close>, whose title is
  \<open>titleV\<close>; the advice request is answered with \<open>a\<close>; and saving \<open>info\<close> with the
  advice attached succeeds with the document \<open>t\<close>. Then \<open>process\<close> returns
  \<^verbatim>\<open>isTask: true\<close> with the confirmation and a task whose id, title, date, notes and
  advice are those of \<open>t\<close>, and \<open>t\<close> is the document the collection has gained.
\<close>

theorem task_response_matches_persisted:
  assumes task: "classified_task e msg w"
    and extraction: "fst (extractTaskInfo e msg (snd (classify e msg w))) = Inr info"
    and ti: "get_prop info ''title'' = Inr titleV"
    and adv: "completions_create e (AdvicePrompt titleV) [] False = Inr a"
    and inf: "set_prop info ''advice'' (JStr (trim a)) = Inr info'"
    and persisted: "fst (saveTask e info' w) = Inr t"
  shows "fst (process e msg w) =
           TaskResponse (confirmation (title t) (fst (formatDate e [date t] 0)) (trim a))
             \<lparr>v_id = task_id t, v_title = title t, v_date = date t,
              v_notes = task_notes t, v_advice = advice t\<rparr> \<and>
         isTask (fst (process e msg w)) = Some True \<and>
         docs (snd (process e msg w)) = docs w @ [t] \<and>
         advice t = trim a"
proof -
  have "aiClient e" using task by (rule classified_task_aiClient)
  then have g: "fst (generateAdvice e titleV w) = trim a"
    using adv by (simp add: generateAdvice_fst)
  show ?thesis
    using task_branch [OF task extraction ti, of w info' t] inf persisted
    by (simp add: g isTask_def)
qed

theorem task_response_matches_persisted_witness:
  "classified_task sample_env ''Remind me to study networking'' sample_world \<and>
   fst (extractTaskInfo sample_env ''Remind me to study networking''
         (snd (classify sample_env ''Remind me to study networking'' sample_world))) =
     Inr sample_info \<and>
   completions_create sample_env (AdvicePrompt (JStr '' Study networking'')) [] False =
     Inr ''1. Start early '' \<and>
   fst (process sample_env ''Remind me to study networking'' sample_world) =
     TaskResponse
       (confirmation ''Study networking'' ''Sunday, February 1, 2026'' ''1. Start early'')
       \<lparr>v_id = 7, v_title = ''Study networking'', v_date = 1769904000000,
        v_notes = [], v_advice = ''1. Start early''\<rparr> \<and>
   docs (snd (process sample_env ''Remind me to study networking'' sample_world)) =
     [sample_task, sample_saved ''1. Start early'']"
proof -
  let ?m = "''Remind me to study networking''"
  let ?info' = "JObj [(''advice'', JStr ''1. Start early''),
       (''date'', JDate (TimeValue 1769904000000)), (''title'', JStr '' Study networking''),
       (''mood'', JStr ''keen'')]"
  have task: "classified_task sample_env ?m sample_world"
    by code_simp
  have ext: "fst (extractTaskInfo sample_env ?m (snd (classify sample_env ?m sample_world))) =
      Inr sample_info"
    by code_simp
  have ti: "get_prop sample_info ''title'' = Inr (JStr '' Study networking'')"
    by code_simp
  have adv: "completions_create sample_env (AdvicePrompt (JStr '' Study networking'')) [] False =
      Inr ''1. Start early ''"
    by code_simp
  have inf: "set_prop sample_info ''advice'' (JStr (trim ''1. Start early '')) = Inr ?info'"
    by code_simp
  have sav: "fst (saveTask sample_env ?info' sample_world) = Inr (sample_saved ''1. Start early'')"
    by code_simp
  have v: "trim ''1. Start early '' = ''1. Start early'' \<and>
    fst (formatDate sample_env [date (sample_saved ''1. Start early'')] 0) =
      ''Sunday, February 1, 2026'' \<and>
    docs sample_world = [sample_task]"
    by code_simp
  show ?thesis
    using task ext adv v task_response_matches_persisted [OF task ext ti adv inf sav]
    by (simp add: sample_saved_def)
qed

text \<open>
  C4. As before, but the advice request is rejected. The task is saved all the same,
  \<open>process\<close> returns \<^verbatim>\<open>isTask: true\<close>, and the advice in the confirmation, the advice
  of the returned task and the advice of the saved document are the text
  \<^verbatim>\<open>Good luck with your task! Break it down into smaller steps and tackle them one at a
  time.\<close>
\<close>

theorem advice_failure_falls_back:
  assumes task: "classified_task e msg w"
    and extraction: "fst (extractTaskInfo e msg (snd (classify e msg w))) = Inr info"
    and ti: "get_prop info ''title'' = Inr titleV"
    and adv: "completions_create e (AdvicePrompt titleV) [] False = Inl x"
    and inf: "set_prop info ''advice''
        (JStr ''Good luck with your task! Break it down into smaller steps and tackle them one at a time.'') =
      Inr info'"
    and persisted: "fst (saveTask e info' w) = Inr t"
  shows "fst (process e msg w) =
           TaskResponse
             (confirmation (title t) (fst (formatDate e [date t] 0))
                ''Good luck with your task! Break it down into smaller steps and tackle them one at a time.'')
             \<lparr>v_id = task_id t, v_title = title t, v_date = date t,
              v_notes = task_notes t,
              v_advice =
                ''Good luck with your task! Break it down into smaller steps and tackle them one at a time.''\<rparr> \<and>
         isTask (fst (process e msg w)) = Some True \<and>
         docs (snd (process e msg w)) = docs w @ [t] \<and>
         advice t =
           ''Good luck with your task! Break it down into smaller steps and tackle them one at a time.''"
proof -
  have f: "fallbackAdvice =
    ''Good luck with your task! Break it down into smaller steps and tackle them one at a time.''"
    by (simp add: fallbackAdvice_def)
  have g: "fst (generateAdvice e titleV w) = fallbackAdvice"
    using adv by (simp add: generateAdvice_fst)
  have i: "set_prop info ''advice'' (JStr (fst (generateAdvice e titleV w))) = Inr info'"
    using inf by (simp only: g f)
  show ?thesis
    using task_branch [OF task extraction ti i persisted]
    by (simp only: g f isTask_def response.case)
qed

theorem advice_failure_falls_back_witness:
  "classified_task no_advice_env ''Remind me to study networking'' sample_world \<and>
   fst (extractTaskInfo no_advice_env ''Remind me to study networking''
         (snd (classify no_advice_env ''Remind me to study networking'' sample_world))) =
     Inr sample_info \<and>
   completions_create no_advice_env (AdvicePrompt (JStr '' Study networking'')) [] False =
     Inl ''429 Too Many Requests'' \<and>
   fst (process no_advice_env ''Remind me to study networking'' sample_world) =
     TaskResponse
       (confirmation ''Study networking'' ''Sunday, February 1, 2026''
          ''Good luck with your task! Break it down into smaller steps and tackle them one at a time.'')
       \<lparr>v_id = 7, v_title = ''Study networking'', v_date = 1769904000000,
        v_notes = [],
        v_advice =
          ''Good luck with your task! Break it down into smaller steps and tackle them one at a time.''\<rparr> \<and>
   docs (snd (process no_advice_env ''Remind me to study networking'' sample_world)) =
     [sample_task,
      sample_saved
        ''Good luck with your task! Break it down into smaller steps and tackle them one at a time.'']"
proof -
  let ?m = "''Remind me to study networking''"
  let ?a = "''Good luck with your task! Break it down into smaller steps and tackle them one at a time.''"
  let ?info' = "JObj [(''advice'', JStr ?a),
       (''date'', JDate (TimeValue 1769904000000)), (''title'', JStr '' Study networking''),
       (''mood'', JStr ''keen'')]"
  have task: "classified_task no_advice_env ?m sample_world"
    by code_simp
  have ext: "fst (extractTaskInfo no_advice_env ?m (snd (classify no_advice_env ?m sample_world))) =
      Inr sample_info"
    by code_simp
  have ti: "get_prop sample_info ''title'' = Inr (JStr '' Study networking'')"
    by code_simp
  have adv: "completions_create no_advice_env (AdvicePrompt (JStr '' Study networking'')) [] False =
      Inl ''429 Too Many Requests''"
    by code_simp
  have inf: "set_prop sample_info ''advice'' (JStr ?a) = Inr ?info'"
    by code_simp
  have sav: "fst (saveTask no_advice_env ?info' sample_world) = Inr (sample_saved ?a)"
    by code_simp
  have v: "fst (formatDate no_advice_env [date (sample_saved ?a)] 0) =
      ''Sunday, February 1, 2026'' \<and>
    docs sample_world = [sample_task]"
    by code_simp
  show ?thesis
    using task ext adv v advice_failure_falls_back [OF task ext ti adv inf sav]
    by (simp add: sample_saved_def)
qed

section \<open>What the store accepts\<close>

lemma title_path_ok:
  assumes "title_path e v = Inr s"
  shows "s \<noteq> [] \<and> length s \<le> 200"
  using assms by (auto simp: title_path_def Let_def split: casted.splits if_splits)

lemma date_path_ok:
  assumes "date_path e v = Inr d"
  shows "castDate e v = Casted d"
  using assms by (auto simp: date_path_def split: casted.splits)

lemma text_path_undefined: "text_path n e (orEmpty JUndefined) = Inr []"
  by (simp add: text_path_def orEmpty_def)

lemma saveTask_titled:
  assumes "titled (docs w)"
  shows "titled (docs (snd (saveTask e info w)))"
proof (cases "saveTask e info w")
  case (Pair r w')
  show ?thesis
  proof (cases r)
    case (Inl x)
    with Pair assms saveTask_failed [of e info w x w'] show ?thesis by simp
  next
    case (Inr t)
    with Pair have s: "saveTask e info w = (Inr t, w')" by simp
    from saveTask_ok [OF s] obtain tv dv nv av where
      d: "docs w' = docs w @ [t]" and n: "Task_new e tv dv nv av = Inr t"
      by blast
    have "title t \<noteq> []"
      using Task_new_fields [OF n] title_path_ok by metis
    with d assms Pair show ?thesis by (simp add: titled_def)
  qed
qed

lemma update_first_all:
  assumes "update_first i f ts = Some (t', ts')" "list_all P ts" "\<And>t. P t \<Longrightarrow> P (f t)"
  shows "list_all P ts'"
  using assms
  by (induction ts arbitrary: ts') (auto split: if_splits option.splits)

lemma update_first_found:
  assumes "update_first i f ts = Some (t', ts')"
  shows "\<exists>t. t' = f t"
  using assms
  by (induction ts arbitrary: ts') (auto split: if_splits option.splits)

lemma delete_first_all:
  assumes "delete_first i ts = Some (t, ts')" "list_all P ts"
  shows "list_all P ts'"
  using assms
  by (induction ts arbitrary: ts') (auto split: if_splits option.splits)

lemma cast_update_ok:
  assumes "cast_update e u = Inr (ti, d)"
  shows "(\<forall>s. ti = Some s \<longrightarrow> s \<noteq> []) \<and>
         (case u_date u of None \<Rightarrow> d = None | Some v \<Rightarrow> \<exists>x. d = Some x \<and> castDate e v = Casted x)"
  using assms title_path_ok date_path_ok
  by (fastforce simp: cast_update_def split: option.splits sum.splits)

lemma apply_update_title:
  "(\<forall>s. ti = Some s \<longrightarrow> s \<noteq> []) \<Longrightarrow> title t \<noteq> [] \<Longrightarrow> title (apply_update u ti d t) \<noteq> []"
  by (auto simp: apply_update_def split: option.splits)

lemma findByIdAndUpdate_titled:
  assumes "titled (docs w)"
  shows "titled (docs (snd (findByIdAndUpdate e i u w)))"
proof (cases "cast_update e u")
  case (Inl x)
  with assms show ?thesis by (simp add: findByIdAndUpdate_def)
next
  case (Inr p)
  obtain ti d where p: "p = (ti, d)" by (cases p)
  from cast_update_ok [OF Inr [unfolded p]] have ok: "\<forall>s. ti = Some s \<longrightarrow> s \<noteq> []"
    by simp
  show ?thesis
  proof (cases "update_first i (apply_update u ti d) (docs w)")
    case None
    with assms Inr p show ?thesis
      by (simp add: findByIdAndUpdate_def logged_def)
  next
    case (Some q)
    obtain t' ds where q: "q = (t', ds)" by (cases q)
    have "list_all (\<lambda>t. title t \<noteq> []) ds"
      using Some [unfolded q] assms [unfolded titled_def] apply_update_title [OF ok]
      by (rule update_first_all)
    with assms Inr p Some q show ?thesis
      by (simp add: findByIdAndUpdate_def logged_def titled_def)
  qed
qed

lemma updateTask_docs:
  "docs (snd (updateTask e i u w)) = docs (snd (findByIdAndUpdate e i u w))"
  by (cases "findByIdAndUpdate e i u w")
    (auto simp: updateTask_def split: sum.splits option.splits)

lemma deleteTask_titled:
  assumes "titled (docs w)"
  shows "titled (docs (snd (deleteTask e i w)))"
  using assms delete_first_all [of i "docs w" _ _ "\<lambda>t. title t \<noteq> []"]
  by (auto simp: deleteTask_def findByIdAndDelete_def logged_def titled_def
      split: option.splits)

lemma getTasks_docs: "docs (snd (getTasks e f w)) = docs w"
  by (simp add: getTasks_def Let_def logged_def)

lemma handleTask_titled:
  assumes "titled (docs w)"
  shows "titled (docs (snd (handleTask e m w)))"
proof (cases "extractTaskInfo e m w")
  case (Pair r w1)
  have w1: "titled (docs w1)"
    using assms extractTaskInfo_frame [of e m w] Pair by simp
  show ?thesis
  proof (cases r)
    case (Inl x)
    with Pair w1 show ?thesis by (simp add: handleTask_def)
  next
    case (Inr info)
    show ?thesis
    proof (cases "get_prop info ''title''")
      case (Inl x)
      with Pair Inr w1 show ?thesis by (simp add: handleTask_def)
    next
      case tv: (Inr tv)
      obtain adv w2 where g: "generateAdvice e tv w1 = (adv, w2)"
        by (cases "generateAdvice e tv w1")
      have w2: "titled (docs w2)"
        using w1 generateAdvice_frame [of e tv w1] g by simp
      show ?thesis
      proof (cases "set_prop info ''advice'' (JStr adv)")
        case (Inl x)
        with Pair Inr tv g w2 show ?thesis by (simp add: handleTask_def)
      next
        case i': (Inr info')
        obtain r3 w3 where s: "saveTask e info' w2 = (r3, w3)"
          by (cases "saveTask e info' w2")
        have w3: "titled (docs w3)"
          using saveTask_titled [OF w2, of e info'] s by simp
        have "snd (handleTask e m w) = w3"
          using Pair Inr tv g i' s
          by (cases r3) (simp_all add: handleTask_def split: prod.splits)
        with w3 show ?thesis by simp
      qed
    qed
  qed
qed

lemma process_titled:
  assumes "titled (docs w)"
  shows "titled (docs (snd (process e m w)))"
proof (cases "classify e m w")
  case (Pair c w1)
  have w1: "titled (docs w1)"
    using assms classify_frame [of e m w] Pair by simp
  have k: "titled (docs (snd (handleConversation e m w1)))"
    using w1 handleConversation_result [of e m w1] by simp
  obtain r2 w2 where h: "handleTask e m w1 = (r2, w2)"
    by (cases "handleTask e m w1")
  have w2: "titled (docs w2)"
    using handleTask_titled [OF w1, of e m] h by simp
  show ?thesis
  proof (cases "get_prop c ''isTask''")
    case (Inl x)
    with Pair w1 show ?thesis by (simp add: process_def)
  next
    case (Inr b)
    with Pair k h w2 show ?thesis
      by (cases r2) (simp_all add: process_def)
  qed
qed

lemma updateTask_result:
  assumes "updateTask e i u w = (Inr t, w')"
  shows "\<exists>ti d t0. cast_update e u = Inr (ti, d) \<and> t = apply_update u ti d t0"
proof (cases "cast_update e u")
  case (Inl x)
  with assms show ?thesis
    by (simp add: updateTask_def findByIdAndUpdate_def)
next
  case (Inr p)
  obtain ti d where p: "p = (ti, d)" by (cases p)
  show ?thesis
  proof (cases "update_first i (apply_update u ti d) (docs w)")
    case None
    with assms Inr p show ?thesis
      by (simp add: updateTask_def findByIdAndUpdate_def split: if_splits)
  next
    case (Some q)
    obtain t' ds where q: "q = (t', ds)" by (cases q)
    from update_first_found [OF Some [unfolded q]] obtain t0 where "t' = apply_update u ti d t0"
      by blast
    with assms Inr p Some q show ?thesis
      by (auto simp: updateTask_def findByIdAndUpdate_def split: if_splits)
  qed
qed

lemma updateTask_date:
  assumes "updateTask e i u w = (Inr t, w')" "u_date u = Some dv"
  shows "castDate e dv = Casted (date t)"
proof -
  from updateTask_result [OF assms(1)] obtain ti d t0 where c: "cast_update e u = Inr (ti, d)"
    and t: "t = apply_update u ti d t0"
    by blast
  from cast_update_ok [OF c] assms(2) obtain x where "d = Some x" "castDate e dv = Casted x"
    by auto
  then show ?thesis using t by (simp add: apply_update_def)
qed

text \<open>
  C9. The collection is \<open>titled\<close> when every document has a non-empty title. Every
  operation on the store keeps it so: \<open>saveTask\<close>, \<open>updateTask\<close>, \<open>deleteTask\<close>,
  \<open>getTasks\<close> and \<open>process\<close>. A date is stored as a time value, so the Invalid Date
  is no stored date: the date of a saved document is the time value the draft's date
  casts to, and so is the date an update sets. A saved document is appended, is not
  completed, and has empty notes and empty advice when the draft has none.
\<close>

theorem persisted_tasks_are_valid:
  assumes "titled (docs w)"
  shows "titled (docs (snd (saveTask e info w))) \<and>
         titled (docs (snd (updateTask e i u w))) \<and>
         titled (docs (snd (deleteTask e i w))) \<and>
         titled (docs (snd (getTasks e f w))) \<and>
         titled (docs (snd (process e msg w))) \<and>
         (\<forall>t w'. saveTask e info w = (Inr t, w') \<longrightarrow>
            docs w' = docs w @ [t] \<and> title t \<noteq> [] \<and>
            (\<exists>dv. get_prop info ''date'' = Inr dv \<and> castDate e dv = Casted (date t)) \<and>
            completed t = False \<and>
            (get_prop info ''notes'' = Inr JUndefined \<longrightarrow> task_notes t = []) \<and>
            (get_prop info ''advice'' = Inr JUndefined \<longrightarrow> advice t = [])) \<and>
         (\<forall>t w' dv. updateTask e i u w = (Inr t, w') \<and> u_date u = Some dv \<longrightarrow>
            castDate e dv = Casted (date t))"
proof -
  have ins: "docs w' = docs w @ [t] \<and> title t \<noteq> [] \<and>
            (\<exists>dv. get_prop info ''date'' = Inr dv \<and> castDate e dv = Casted (date t)) \<and>
            completed t = False \<and>
            (get_prop info ''notes'' = Inr JUndefined \<longrightarrow> task_notes t = []) \<and>
            (get_prop info ''advice'' = Inr JUndefined \<longrightarrow> advice t = [])"
    if s: "saveTask e info w = (Inr t, w')" for t w'
  proof -
    from saveTask_ok [OF s] obtain tv dv nv av where
      d: "docs w' = docs w @ [t]"
      and g: "get_prop info ''date'' = Inr dv" "get_prop info ''notes'' = Inr nv"
        "get_prop info ''advice'' = Inr av"
      and n: "Task_new e tv dv (orEmpty nv) (orEmpty av) = Inr t"
      by blast
    note fl = Task_new_fields [OF n]
    have "title t \<noteq> []" using fl title_path_ok by metis
    moreover have "castDate e dv = Casted (date t)" using fl date_path_ok by metis
    moreover have "nv = JUndefined \<Longrightarrow> task_notes t = []"
      using fl by (simp add: text_path_undefined)
    moreover have "av = JUndefined \<Longrightarrow> advice t = []"
      using fl by (simp add: text_path_undefined)
    ultimately show ?thesis using d g fl by auto
  qed
  have upd: "titled (docs (snd (updateTask e i u w)))"
    using findByIdAndUpdate_titled [OF assms] by (simp add: updateTask_docs)
  have get: "titled (docs (snd (getTasks e f w)))"
    using assms by (simp add: getTasks_docs)
  show ?thesis
    using saveTask_titled [OF assms] upd deleteTask_titled [OF assms] get
      process_titled [OF assms] ins updateTask_date
    by blast
qed

text \<open>
  On the sample collection: the sample extraction is saved with empty notes and advice,
  and an update that would blank a title is refused.
\<close>

theorem persisted_tasks_are_valid_witness:
  "titled (docs sample_world) \<and>
   titled (docs (snd (saveTask sample_env sample_info sample_world))) \<and>
   titled (docs (snd (updateTask sample_env 3 blank_title sample_world))) \<and>
   titled (docs (snd (deleteTask sample_env 3 sample_world))) \<and>
   titled (docs (snd (getTasks sample_env sample_filters sample_world))) \<and>
   titled (docs (snd (process sample_env ''Remind me to study networking'' sample_world))) \<and>
   saveTask sample_env sample_info sample_world =
     (Inr (sample_saved []),
      \<lparr>docs = [sample_task, sample_saved []], calls = [DbInsert (sample_saved [])]\<rparr>) \<and>
   updateTask sample_env 3 blank_title sample_world =
     (Inl (Error ''Failed to update task''), sample_world)"
proof -
  have h: "titled (docs sample_world)"
    by code_simp
  have s: "saveTask sample_env sample_info sample_world =
     (Inr (sample_saved []),
      \<lparr>docs = [sample_task, sample_saved []], calls = [DbInsert (sample_saved [])]\<rparr>)"
    by code_simp
  have u: "updateTask sample_env 3 blank_title sample_world =
     (Inl (Error ''Failed to update task''), sample_world)"
    by code_simp
  show ?thesis
    using h s u
      persisted_tasks_are_valid [OF h, of sample_env sample_info 3 blank_title sample_filters
        "''Remind me to study networking''"]
    by blast
qed

section \<open>Fields the schema does not know\<close>

lemma saveTask_reads_four:
  assumes "get_prop i1 ''title'' = get_prop i2 ''title''"
    and "get_prop i1 ''date'' = get_prop i2 ''date''"
    and "get_prop i1 ''notes'' = get_prop i2 ''notes''"
    and "get_prop i1 ''advice'' = get_prop i2 ''advice''"
  shows "saveTask e i1 w = saveTask e i2 w"
  unfolding saveTask_def assms ..

lemma castString_reply: "castString (with_extraction_reply e r) v = castString e v"
  by (cases v) (simp_all add: with_extraction_reply_def)

lemma castDate_reply: "castDate (with_extraction_reply e r) v = castDate e v"
  by (induction e v rule: castDate.induct) (simp_all add: with_extraction_reply_def)

lemma reply_fields:
  "aiClient (with_extraction_reply e r) = aiClient e"
  "JSON_parse (with_extraction_reply e r) = JSON_parse e"
  "Date_of (with_extraction_reply e r) = Date_of e"
  "now_extract (with_extraction_reply e r) = now_extract e"
  "now_create (with_extraction_reply e r) = now_create e"
  "now_format (with_extraction_reply e r) = now_format e"
  "LocalTZA (with_extraction_reply e r) = LocalTZA e"
  "long_date_bce (with_extraction_reply e r) = long_date_bce e"
  "ObjectId (with_extraction_reply e r) = ObjectId e"
  "db_available (with_extraction_reply e r) = db_available e"
  by (simp_all add: with_extraction_reply_def)

lemma Task_new_reply:
  "Task_new (with_extraction_reply e r) tv dv nv av = Task_new e tv dv nv av"
  unfolding Task_new_def title_path_def date_path_def text_path_def
    castString_reply castDate_reply reply_fields ..

lemma saveTask_reply: "saveTask (with_extraction_reply e r) i w = saveTask e i w"
  unfolding saveTask_def Task_new_reply insertOne_def reply_fields ..

lemma sendMessage_reply:
  "sendMessage (with_extraction_reply e r) ClassificationPrompt m j w =
     sendMessage e ClassificationPrompt m j w"
  "sendMessage (with_extraction_reply e r) (AdvicePrompt v) m j w =
     sendMessage e (AdvicePrompt v) m j w"
  "sendMessage (with_extraction_reply e r) ConversationalPrompt m j w =
     sendMessage e ConversationalPrompt m j w"
  by (simp_all add: sendMessage_def with_extraction_reply_def)

lemma classify_reply: "classify (with_extraction_reply e r) m w = classify e m w"
  unfolding classify_def reply_fields by (simp add: sendMessage_reply)

lemma handleConversation_reply:
  "handleConversation (with_extraction_reply e r) m w = handleConversation e m w"
  by (simp add: handleConversation_def sendMessage_reply)

lemma generateAdvice_reply:
  "generateAdvice (with_extraction_reply e r) v w = generateAdvice e v w"
  by (simp add: generateAdvice_def sendMessage_reply)

lemma formatDate_reply: "formatDate (with_extraction_reply e r) h a = formatDate e h a"
  unfolding formatDate_def reply_fields ..

lemma extractTaskInfo_object:
  assumes "completions_create e (ExtractionPrompt (now_extract e)) m True = Inr r"
    and "JSON_parse e r = Some (JObj ps)"
  shows "extractTaskInfo e m w =
     (if aiClient e
      then (Inr (JObj ((''date'',
                  JDate (Date_of e (case map_of ps ''date'' of None \<Rightarrow> JUndefined | Some v \<Rightarrow> v))) #
                filter (\<lambda>p. fst p \<noteq> ''date'') ps)),
            logged (Completion (ExtractionPrompt (now_extract e)) m True) w)
      else (Inl (Error ''Failed to extract task information''), w))"
  using assms by (simp add: extractTaskInfo_def sendMessage_def)

lemma handleTask_after_extraction:
  assumes "extractTaskInfo e m w = (Inr i, w1)"
    and "get_prop i ''title'' = Inr tv"
    and "generateAdvice e tv w1 = (adv, w2)"
    and "set_prop i ''advice'' (JStr adv) = Inr i'"
  shows "handleTask e m w =
     (case saveTask e i' w2 of
        (Inl x, w3) \<Rightarrow> (Inl x, w3)
      | (Inr savedTask, w3) \<Rightarrow>
          (case formatDate e [date savedTask] 0 of (formattedDate, h) \<Rightarrow>
             (Inr (TaskResponse
                    (confirmation (title savedTask) formattedDate adv)
                    \<lparr>v_id = task_id savedTask, v_title = title savedTask, v_date = getTime h 0,
                     v_notes = task_notes savedTask, v_advice = advice savedTask\<rparr>),
              w3)))"
  using assms by (simp add: handleTask_def)

lemma handleTask_rest:
  assumes x1: "extractTaskInfo e1 m w = (Inr i1, w1)"
    and x2: "extractTaskInfo e2 m w = (Inr i2, w1)"
    and ti: "get_prop i1 ''title'' = get_prop i2 ''title''"
    and da: "get_prop i1 ''date'' = get_prop i2 ''date''"
    and no: "get_prop i1 ''notes'' = get_prop i2 ''notes''"
    and ga: "\<And>v w. generateAdvice e1 v w = generateAdvice e2 v w"
    and sa: "\<And>i w. saveTask e1 i w = saveTask e2 i w"
    and fo: "\<And>h a. formatDate e1 h a = formatDate e2 h a"
    and o1: "\<exists>v k x. set_prop v k x = Inr i1"
    and o2: "\<exists>v k x. set_prop v k x = Inr i2"
  shows "handleTask e1 m w = handleTask e2 m w"
proof -
  obtain tv where tv: "get_prop i1 ''title'' = Inr tv"
    using o1 get_prop_after_set by blast
  then have tv2: "get_prop i2 ''title'' = Inr tv"
    using ti by simp
  obtain adv w2 where g: "generateAdvice e2 tv w1 = (adv, w2)"
    by (cases "generateAdvice e2 tv w1")
  then have g1: "generateAdvice e1 tv w1 = (adv, w2)"
    using ga by simp
  obtain i1' where i1': "set_prop i1 ''advice'' (JStr adv) = Inr i1'"
    using o1 set_prop_total by blast
  obtain i2' where i2': "set_prop i2 ''advice'' (JStr adv) = Inr i2'"
    using o2 set_prop_total by blast
  have s: "saveTask e2 i1' w2 = saveTask e2 i2' w2"
    using get_prop_set_prop_other [OF i1'] get_prop_set_prop_other [OF i2']
      get_prop_set_prop_same [OF i1'] get_prop_set_prop_same [OF i2'] ti da no
    by (intro saveTask_reads_four) simp_all
  show ?thesis
    unfolding handleTask_after_extraction [OF x1 tv g1 i1']
      handleTask_after_extraction [OF x2 tv2 g i2'] sa fo s ..
qed

text \<open>
  C10. The extraction request is answered with \<open>r1\<close>, which parses to an object. If it
  were answered with \<open>r2\<close> instead, which parses to an object with the same title, date
  and notes, then \<open>process\<close> would return the same response and leave the same
  collection and the same log: whatever else the objects hold reaches neither the store
  nor the caller. (The advice request depends on the title alone, so it is the same
  request with the same outcome.)
\<close>

theorem extra_fields_never_leak:
  assumes r1: "completions_create e (ExtractionPrompt (now_extract e)) msg True = Inr r1"
    and o1: "JSON_parse e r1 = Some (JObj ps1)"
    and o2: "JSON_parse e r2 = Some (JObj ps2)"
    and ti: "map_of ps1 ''title'' = map_of ps2 ''title''"
    and da: "map_of ps1 ''date'' = map_of ps2 ''date''"
    and no: "map_of ps1 ''notes'' = map_of ps2 ''notes''"
  shows "process (with_extraction_reply e r2) msg w = process e msg w"
proof -
  let ?e = "with_extraction_reply e r2"
  have f: "aiClient ?e = aiClient e" "now_extract ?e = now_extract e"
    "JSON_parse ?e = JSON_parse e" "Date_of ?e = Date_of e"
    "completions_create ?e (ExtractionPrompt (now_extract e)) msg True = Inr r2"
    by (simp_all add: with_extraction_reply_def)
  have h: "handleTask ?e msg w1 = handleTask e msg w1" for w1
  proof (cases "aiClient e")
    case False
    then show ?thesis
      by (simp add: handleTask_def extractTaskInfo_def sendMessage_def f)
  next
    case True
    have x2: "completions_create ?e (ExtractionPrompt (now_extract ?e)) msg True = Inr r2"
      "JSON_parse ?e r2 = Some (JObj ps2)"
      using o2 by (simp_all add: f)
    let ?d = "JDate (Date_of e (case map_of ps1 ''date'' of None \<Rightarrow> JUndefined | Some v \<Rightarrow> v))"
    let ?i1 = "JObj ((''date'', ?d) # filter (\<lambda>p. fst p \<noteq> ''date'') ps1)"
    let ?i2 = "JObj ((''date'', ?d) # filter (\<lambda>p. fst p \<noteq> ''date'') ps2)"
    let ?w = "logged (Completion (ExtractionPrompt (now_extract e)) msg True) w1"
    have a1: "extractTaskInfo e msg w1 = (Inr ?i1, ?w)"
      using True by (simp add: extractTaskInfo_object [OF r1 o1])
    have a2: "extractTaskInfo ?e msg w1 = (Inr ?i2, ?w)"
      using True by (simp add: extractTaskInfo_object [OF x2] f da)
    have p: "get_prop ?i2 ''title'' = get_prop ?i1 ''title''"
      "get_prop ?i2 ''date'' = get_prop ?i1 ''date''"
      "get_prop ?i2 ''notes'' = get_prop ?i1 ''notes''"
      using ti no by (simp_all add: map_of_filter_other)
    have s1: "\<exists>v k x. set_prop v k x = Inr ?i1"
      by (intro exI [of _ "JObj ps1"] exI [of _ "''date''"] exI [of _ ?d]) simp
    have s2: "\<exists>v k x. set_prop v k x = Inr ?i2"
      by (intro exI [of _ "JObj ps2"] exI [of _ "''date''"] exI [of _ ?d]) simp
    show ?thesis
      by (rule handleTask_rest [OF a2 a1 p generateAdvice_reply saveTask_reply
            formatDate_reply s2 s1])
  qed
  show ?thesis
    unfolding process_def classify_reply handleConversation_reply h ..
qed

text \<open>The sample reply and the same reply without its unknown field.\<close>

theorem extra_fields_never_leak_witness:
  \<open>completions_create sample_env (ExtractionPrompt (now_extract sample_env))
     ''Remind me to study networking'' True =
     Inr ''{"title": " Study networking", "date": "2026-02-01", "mood": "keen"}'' \<and>
   JSON_parse sample_env ''{"title": " Study networking", "date": "2026-02-01", "mood": "keen"}'' =
     Some (JObj [(''title'', JStr '' Study networking''), (''date'', JStr ''2026-02-01''),
                 (''mood'', JStr ''keen'')]) \<and>
   JSON_parse sample_env plain_reply =
     Some (JObj [(''title'', JStr '' Study networking''), (''date'', JStr ''2026-02-01'')]) \<and>
   process (with_extraction_reply sample_env plain_reply) ''Remind me to study networking''
     sample_world =
   process sample_env ''Remind me to study networking'' sample_world \<and>
   docs (snd (process sample_env ''Remind me to study networking'' sample_world)) =
     [sample_task, sample_saved ''1. Start early'']\<close>
proof -
  let ?ps1 = "[(''title'', JStr '' Study networking''), (''date'', JStr ''2026-02-01''),
                 (''mood'', JStr ''keen'')]"
  let ?ps2 = "[(''title'', JStr '' Study networking''), (''date'', JStr ''2026-02-01'')]"
  have r1: \<open>completions_create sample_env (ExtractionPrompt (now_extract sample_env))
     ''Remind me to study networking'' True =
     Inr ''{"title": " Study networking", "date": "2026-02-01", "mood": "keen"}''\<close>
    by code_simp
  have o1: \<open>JSON_parse sample_env
      ''{"title": " Study networking", "date": "2026-02-01", "mood": "keen"}'' =
     Some (JObj ?ps1)\<close>
    by code_simp
  have o2: "JSON_parse sample_env plain_reply = Some (JObj ?ps2)"
    by code_simp
  have a: "map_of ?ps1 ''title'' = map_of ?ps2 ''title''"
    "map_of ?ps1 ''date'' = map_of ?ps2 ''date''"
    "map_of ?ps1 ''notes'' = map_of ?ps2 ''notes''"
    by simp_all
  have d: "docs (snd (process sample_env ''Remind me to study networking'' sample_world)) =
     [sample_task, sample_saved ''1. Start early'']"
    by code_simp
  show ?thesis
    using r1 o1 o2 d
      extra_fields_never_leak [OF r1 o1 o2 a, of sample_world]
    by (intro conjI)
qed

end
